theory Spec2Isabelle
  imports Main "HOL-Library.Word" "HOL-Library.AList" "HOL-Library.Option_ord"
begin

section \<open>Data model of the LLO plugin (llo/plugin.go)\<close>

text \<open>
  Go types are embedded as follows. \<open>uint32\<close>, \<open>uint64\<close> and \<open>int64\<close> are
  words (\<open>int64\<close> is read with \<open>sint\<close>); Go \<open>int\<close> counters are \<open>int\<close>
  (no counter of this file can overflow); a byte slice is a list of bytes;
  \<open>*big.Int\<close> is \<open>int option\<close> with \<open>None\<close> the nil pointer; an \<open>error\<close>
  result is a value of the datatype \<open>error\<close>, which also carries the two run-time
  panics the file can raise. A Go map that is a field of \<open>Outcome\<close> or of a
  \<open>RetirementReport\<close> is a partial function under an \<open>option\<close>: \<open>None\<close> is the
  nil map, which reads like the empty map but is told apart by \<open>== nil\<close>.
  The maps of an \<open>Observation\<close> and the maps that \<open>Outcome\<close> builds while it
  decodes the observations are association lists with distinct keys.
\<close>

type_synonym bytes = "8 word list"
type_synonym ChannelID = "32 word"
type_synonym StreamID = "32 word"
type_synonym ConfigDigest = bytes
type_synonym ChannelHash = bytes
type_synonym LLOLifeCycleStage = string
type_synonym LLOReportFormat = string

definition MAX_OBSERVATION_REMOVE_CHANNEL_IDS_LENGTH :: nat where
  "MAX_OBSERVATION_REMOVE_CHANNEL_IDS_LENGTH = 5"

definition MAX_OBSERVATION_ADD_CHANNEL_DEFINITIONS_LENGTH :: nat where
  "MAX_OBSERVATION_ADD_CHANNEL_DEFINITIONS_LENGTH = 5"

definition MAX_OBSERVATION_STREAM_VALUES_LENGTH :: nat where
  "MAX_OBSERVATION_STREAM_VALUES_LENGTH = 1000"

definition MAX_OUTCOME_CHANNEL_DEFINITIONS_LENGTH :: nat where
  "MAX_OUTCOME_CHANNEL_DEFINITIONS_LENGTH = 500"

definition LifeCycleStageStaging :: LLOLifeCycleStage where
  "LifeCycleStageStaging = ''staging''"

definition LifeCycleStageProduction :: LLOLifeCycleStage where
  "LifeCycleStageProduction = ''production''"

definition LifeCycleStageRetired :: LLOLifeCycleStage where
  "LifeCycleStageRetired = ''retired''"

datatype error =
    ErrInvalidSeqNr
  | ErrInvariantViolation
  | ErrUnmarshalPreviousOutcome
  | ErrNoValidObservations
  | ErrPreviousObservationsTimestamp
  | ErrObservationsTimestamp
  | ErrTimestampDoesNotFitUint32
  | ErrRetiredChannel
  | ErrInvalidObservationsTimestamp
  | ErrNoChannelDefinition
  | ErrInvalidChainSelector
  | ErrMedianNil
  | ErrNoValidAfterSeconds
  | ErrNotValidYet
  | ErrObservationNotEmpty
  | ErrObservationInvalidJSON
  | ErrUnexpectedPredecessorRetirement
  | ErrAddChannelDefinitionsTooLong
  | ErrRemoveChannelIDsTooLong
  | ErrStreamValuesTooLong
  | ErrValidStreamWithNilValue
  | ErrAttestedRetirementReportCache
  | ErrShouldRetireCache
  | ErrDataSourceObserve
  | PanicNilPointerDereference
  | PanicIndexOutOfRange

text \<open>
  Modelled from the spec: the declarations of \<open>ChannelDefinition\<close>,
  \<open>ChannelDefinitionWithID\<close>, \<open>ChannelHash\<close> and \<open>ObsResult\<close> are not in
  \<open>plugin.go\<close>. A channel definition is a report format, a \<open>uint64\<close> chain
  selector and a sequence of \<open>uint32\<close> stream ids; with its id it embeds the
  definition and adds the \<open>uint32\<close> channel id; an observed stream value is a
  flag \<open>Valid\<close> and a value \<open>Val\<close>, which \<open>plugin.go\<close> instantiates with
  \<open>*big.Int\<close>. These are also the only fields that \<open>plugin.go\<close> reads.
\<close>

record ChannelDefinition =
  ReportFormat :: LLOReportFormat
  ChainSelector :: "64 word"
  StreamIDs :: "StreamID list"

record ChannelDefinitionWithID =
  ChannelDefinition :: ChannelDefinition
  ChannelID :: ChannelID

record ObsResult =
  Val :: "int option"
  Valid :: bool

record RetirementReport =
  ValidAfterSeconds :: "(ChannelID \<rightharpoonup> 32 word) option"

record Observation =
  AttestedPredecessorRetirement :: bytes
  ShouldRetire :: bool
  UnixTimestampNanoseconds :: "64 word"
  RemoveChannelIDs :: "ChannelID list"
  AddChannelDefinitions :: "(ChannelID \<times> ChannelDefinition) list"
  StreamValues :: "(StreamID \<times> ObsResult) list"

record Outcome =
  LifeCycleStage :: LLOLifeCycleStage
  ObservationsTimestampNanoseconds :: "64 word"
  ChannelDefinitions :: "(ChannelID \<rightharpoonup> ChannelDefinition) option"
  ValidAfterSeconds :: "(ChannelID \<rightharpoonup> 32 word) option"
  StreamMedians :: "(StreamID \<rightharpoonup> int option) option"

text \<open>
  Code that is not part of this file is a parameter: the JSON decoders of
  \<open>encoding/json\<close> for the two wire types, SHA-256, and
  \<open>chainselectors.ChainIdFromSelector\<close> (\<open>None\<close> is its error).
\<close>

record externals =
  jsonUnmarshalOutcome :: "bytes \<Rightarrow> Outcome option"
  jsonUnmarshalObservation :: "bytes \<Rightarrow> Observation option"
  sha256 :: "bytes \<Rightarrow> ChannelHash"
  ChainIdFromSelector :: "64 word \<Rightarrow> 64 word option"

text \<open>
  The fields of \<open>LLOPlugin\<close> that \<open>Observation\<close>, \<open>ValidateObservation\<close> and
  \<open>Outcome\<close> read. \<open>PredecessorConfigDigest\<close> is a pointer (\<open>None\<close> is nil).
  The collaborators are interfaces; each is what its method returns during the
  call, with \<open>None\<close> for an error: \<open>CheckAttestedRetirementReport\<close> and
  \<open>AttestedRetirementReport\<close> of the \<open>PredecessorRetirementReportCache\<close>,
  \<open>ShouldRetire()\<close> of the \<open>ShouldRetireCache\<close>, \<open>Definitions()\<close> of the
  \<open>ChannelDefinitionCache\<close> and \<open>Observe\<close> of the \<open>DataSource\<close>.
\<close>

record LLOPlugin =
  PredecessorConfigDigest :: "ConfigDigest option"
  CheckAttestedRetirementReport :: "ConfigDigest \<Rightarrow> bytes \<Rightarrow> RetirementReport option"
  F :: int
  AttestedRetirementReport :: "ConfigDigest \<Rightarrow> bytes option"
  ShouldRetireCache :: "bool option"
  ChannelDefinitionCache :: "ChannelID \<rightharpoonup> ChannelDefinition"
  DataSource :: "StreamID set \<Rightarrow> (StreamID \<times> ObsResult) list option"

text \<open>Reading a Go map that may be nil: the nil map has no entry.\<close>

definition entries :: "('k \<rightharpoonup> 'v) option \<Rightarrow> ('k \<rightharpoonup> 'v)" where
  "entries m = (case m of None \<Rightarrow> Map.empty | Some f \<Rightarrow> f)"

section \<open>MakeChannelHash\<close>

definition be32 :: "32 word \<Rightarrow> bytes" where
  "be32 w = [ucast (drop_bit 24 w), ucast (drop_bit 16 w), ucast (drop_bit 8 w), ucast w]"

definition be64 :: "64 word \<Rightarrow> bytes" where
  "be64 w = [ucast (drop_bit 56 w), ucast (drop_bit 48 w), ucast (drop_bit 40 w),
             ucast (drop_bit 32 w), ucast (drop_bit 24 w), ucast (drop_bit 16 w),
             ucast (drop_bit 8 w), ucast w]"

definition MakeChannelHash :: "externals \<Rightarrow> ChannelDefinitionWithID \<Rightarrow> ChannelHash" where
  "MakeChannelHash ext cd =
     sha256 ext
       (be32 (ChannelID cd)
        @ be32 (of_nat (length (ReportFormat (ChannelDefinition cd))))
        @ map of_char (ReportFormat (ChannelDefinition cd))
        @ be64 (ChainSelector (ChannelDefinition cd))
        @ be32 (of_nat (length (StreamIDs (ChannelDefinition cd))))
        @ concat (map be32 (StreamIDs (ChannelDefinition cd))))"

section \<open>ObservationsTimestampSeconds and IsReportable\<close>

text \<open>
  \<open>time.Unix(0, ns).Unix()\<close> is the floor of \<open>ns / 10^9\<close>, which is \<open>div\<close> on
  \<open>int\<close>. \<open>int64(uint32(result)) != result\<close> compares the low 32 bits, read
  unsigned, with the value.
\<close>

definition ObservationsTimestampSeconds :: "Outcome \<Rightarrow> error + 32 word" where
  "ObservationsTimestampSeconds out =
     (let result = sint (ObservationsTimestampNanoseconds out) div 1000000000 in
      if uint (word_of_int result :: 32 word) \<noteq> result
      then Inl ErrTimestampDoesNotFitUint32
      else Inr (word_of_int result))"

text \<open>\<open>out.StreamMedians[streamID] == nil\<close>: the entry is missing or holds nil.\<close>

definition medianIsNil :: "Outcome \<Rightarrow> StreamID \<Rightarrow> bool" where
  "medianIsNil out streamID =
     (case entries (StreamMedians out) streamID of
        None \<Rightarrow> True
      | Some None \<Rightarrow> True
      | Some (Some v) \<Rightarrow> False)"

text \<open>\<open>None\<close> is the nil error: the channel is reportable.\<close>

definition IsReportable :: "externals \<Rightarrow> Outcome \<Rightarrow> ChannelID \<Rightarrow> error option" where
  "IsReportable ext out channelID =
     (if LifeCycleStage out = LifeCycleStageRetired then Some ErrRetiredChannel
      else case ObservationsTimestampSeconds out of
        Inl err \<Rightarrow> Some ErrInvalidObservationsTimestamp
      | Inr observationsTimestampSeconds \<Rightarrow>
          (case entries (ChannelDefinitions out) channelID of
             None \<Rightarrow> Some ErrNoChannelDefinition
           | Some channelDefinition \<Rightarrow>
               if ChainIdFromSelector ext (ChainSelector channelDefinition) = None
               then Some ErrInvalidChainSelector
               else if list_ex (medianIsNil out) (StreamIDs channelDefinition)
               then Some ErrMedianNil
               else (case entries (ValidAfterSeconds out) channelID of
                       None \<Rightarrow> Some ErrNoValidAfterSeconds
                     | Some validAfterSeconds \<Rightarrow>
                         if validAfterSeconds \<ge> observationsTimestampSeconds
                         then Some ErrNotValidYet
                         else None)))"

section \<open>ValidateObservation\<close>

text \<open>
  An attributed observation is the byte slice \<open>ao.Observation\<close>; the observer id is
  only logged. For empty bytes the zero \<open>Observation\<close> is validated.
\<close>

definition zeroObservation :: Observation where
  "zeroObservation =
     \<lparr>AttestedPredecessorRetirement = [], ShouldRetire = False,
      UnixTimestampNanoseconds = 0, RemoveChannelIDs = [],
      AddChannelDefinitions = [], StreamValues = []\<rparr>"

definition validateDecoded :: "LLOPlugin \<Rightarrow> Observation \<Rightarrow> error option" where
  "validateDecoded p observation =
     (if PredecessorConfigDigest p = None \<and> length (AttestedPredecessorRetirement observation) \<noteq> 0
      then Some ErrUnexpectedPredecessorRetirement
      else if length (AddChannelDefinitions observation) > MAX_OBSERVATION_ADD_CHANNEL_DEFINITIONS_LENGTH
      then Some ErrAddChannelDefinitionsTooLong
      else if length (RemoveChannelIDs observation) > MAX_OBSERVATION_REMOVE_CHANNEL_IDS_LENGTH
      then Some ErrRemoveChannelIDsTooLong
      else if length (StreamValues observation) > MAX_OBSERVATION_STREAM_VALUES_LENGTH
      then Some ErrStreamValuesTooLong
      else if list_ex (\<lambda>(streamID, obsResult). Valid obsResult \<and> Val obsResult = None)
                (StreamValues observation)
      then Some ErrValidStreamWithNilValue
      else None)"

definition ValidateObservation :: "externals \<Rightarrow> LLOPlugin \<Rightarrow> 64 word \<Rightarrow> bytes \<Rightarrow> error option" where
  "ValidateObservation ext p seqNr ao =
     (if seqNr \<le> 1 \<and> length ao \<noteq> 0 then Some ErrObservationNotEmpty
      else if length ao > 0
      then (case jsonUnmarshalObservation ext ao of
              None \<Rightarrow> Some ErrObservationInvalidJSON
            | Some observation \<Rightarrow> validateDecoded p observation)
      else validateDecoded p zeroObservation)"

section \<open>Outcome: decoding the observations\<close>

text \<open>
  The variables that the loop over \<open>aos\<close> fills. The four maps are association
  lists with distinct keys; \<open>m[k]++\<close> and \<open>m[k] = append(m[k], v)\<close> on a missing key
  start from the zero value.
\<close>

record Accumulators =
  validPredecessorRetirementReport :: "RetirementReport option"
  shouldRetireVotes :: int
  timestampsNanoseconds :: "64 word list"
  removeChannelVotesByID :: "(ChannelID \<times> int) list"
  addChannelVotesByHash :: "(ChannelHash \<times> int) list"
  addChannelDefinitionsByHash :: "(ChannelHash \<times> ChannelDefinitionWithID) list"
  streamObservations :: "(StreamID \<times> int option list) list"

definition emptyAccumulators :: Accumulators where
  "emptyAccumulators =
     \<lparr>validPredecessorRetirementReport = None, shouldRetireVotes = 0,
      timestampsNanoseconds = [], removeChannelVotesByID = [],
      addChannelVotesByHash = [], addChannelDefinitionsByHash = [],
      streamObservations = []\<rparr>"

definition increment :: "'k \<Rightarrow> ('k \<times> int) list \<Rightarrow> ('k \<times> int) list" where
  "increment k m = AList.map_default k 1 (\<lambda>n. n + 1) m"

definition voteCountOf :: "('k \<times> int) list \<Rightarrow> 'k \<Rightarrow> int" where
  "voteCountOf m k = (case map_of m k of None \<Rightarrow> 0 | Some n \<Rightarrow> n)"

definition addChannelVote ::
  "externals \<Rightarrow> ChannelID \<times> ChannelDefinition \<Rightarrow> Accumulators \<Rightarrow> Accumulators" where
  "addChannelVote ext entry a =
     (let defWithID = \<lparr>ChannelDefinition = snd entry, ChannelID = fst entry\<rparr>;
          channelHash = MakeChannelHash ext defWithID
      in a\<lparr>addChannelVotesByHash := increment channelHash (addChannelVotesByHash a),
            addChannelDefinitionsByHash :=
              AList.update channelHash defWithID (addChannelDefinitionsByHash a)\<rparr>)"

definition appendStreamValue ::
  "StreamID \<times> ObsResult \<Rightarrow> (StreamID \<times> int option list) list
     \<Rightarrow> (StreamID \<times> int option list) list" where
  "appendStreamValue entry so =
     (if Valid (snd entry)
      then AList.map_default (fst entry) [Val (snd entry)] (\<lambda>vs. vs @ [Val (snd entry)]) so
      else so)"

text \<open>The part of the loop body after the retirement report was handled.\<close>

definition accumulate :: "externals \<Rightarrow> Observation \<Rightarrow> Accumulators \<Rightarrow> Accumulators" where
  "accumulate ext observation a =
     fold (addChannelVote ext) (AddChannelDefinitions observation)
       (a\<lparr>shouldRetireVotes :=
            (if ShouldRetire observation then shouldRetireVotes a + 1 else shouldRetireVotes a),
          timestampsNanoseconds :=
            timestampsNanoseconds a @ [UnixTimestampNanoseconds observation],
          removeChannelVotesByID :=
            fold increment (RemoveChannelIDs observation) (removeChannelVotesByID a),
          streamObservations :=
            fold appendStreamValue (StreamValues observation) (streamObservations a)\<rparr>)"

text \<open>
  One iteration of the loop over \<open>aos\<close>. Returning the accumulators unchanged is
  \<open>continue\<close>; \<open>*p.PredecessorConfigDigest\<close> on a nil pointer panics.
\<close>

definition decodeObservation ::
  "externals \<Rightarrow> LLOPlugin \<Rightarrow> bytes \<Rightarrow> Accumulators \<Rightarrow> error + Accumulators" where
  "decodeObservation ext p ao a =
     (case jsonUnmarshalObservation ext ao of
        None \<Rightarrow> Inr a
      | Some observation \<Rightarrow>
          if length (AttestedPredecessorRetirement observation) \<noteq> 0
             \<and> validPredecessorRetirementReport a = None
          then (case PredecessorConfigDigest p of
                  None \<Rightarrow> Inl PanicNilPointerDereference
                | Some pcd \<Rightarrow>
                    (case CheckAttestedRetirementReport p pcd
                            (AttestedPredecessorRetirement observation) of
                       None \<Rightarrow> Inr a
                     | Some retirementReport \<Rightarrow>
                         Inr (accumulate ext observation
                                (a\<lparr>validPredecessorRetirementReport := Some retirementReport\<rparr>))))
          else Inr (accumulate ext observation a))"

fun decodeObservations ::
  "externals \<Rightarrow> LLOPlugin \<Rightarrow> bytes list \<Rightarrow> Accumulators \<Rightarrow> error + Accumulators" where
  "decodeObservations ext p [] a = Inr a"
| "decodeObservations ext p (ao # aos) a =
     (case decodeObservation ext p ao a of
        Inl e \<Rightarrow> Inl e
      | Inr a' \<Rightarrow> decodeObservations ext p aos a')"

section \<open>Outcome: the fields of the new outcome\<close>

definition promoted :: "Outcome \<Rightarrow> Accumulators \<Rightarrow> bool" where
  "promoted previousOutcome a \<longleftrightarrow>
     LifeCycleStage previousOutcome = LifeCycleStageStaging
     \<and> validPredecessorRetirementReport a \<noteq> None"

definition outcomeLifeCycleStage :: "LLOPlugin \<Rightarrow> Outcome \<Rightarrow> Accumulators \<Rightarrow> LLOLifeCycleStage" where
  "outcomeLifeCycleStage p previousOutcome a =
     (let stage = (if promoted previousOutcome a then LifeCycleStageProduction
                   else LifeCycleStage previousOutcome)
      in if stage = LifeCycleStageProduction \<and> shouldRetireVotes a > F p
         then LifeCycleStageRetired else stage)"

text \<open>
  \<open>outcome.ValidAfterSeconds\<close> after the life-cycle block: the report's map on
  promotion (which may itself be nil), nil otherwise.
\<close>

definition promotedValidAfterSeconds ::
  "Outcome \<Rightarrow> Accumulators \<Rightarrow> (ChannelID \<rightharpoonup> 32 word) option" where
  "promotedValidAfterSeconds previousOutcome a =
     (if promoted previousOutcome a
      then (case validPredecessorRetirementReport a of
              None \<Rightarrow> None
            | Some retirementReport \<Rightarrow> RetirementReport.ValidAfterSeconds retirementReport)
      else None)"

text \<open>
  The loop over \<open>removeChannelVotesByID\<close>: the state is \<open>removedChannelIDs\<close> and
  the channel definitions.
\<close>

definition removeChannel ::
  "int \<Rightarrow> ChannelID \<times> int \<Rightarrow> ChannelID list \<times> (ChannelID \<rightharpoonup> ChannelDefinition)
     \<Rightarrow> ChannelID list \<times> (ChannelID \<rightharpoonup> ChannelDefinition)" where
  "removeChannel f entry st =
     (if snd entry \<le> f then st
      else (fst st @ [fst entry], (snd st)(fst entry := None)))"

text \<open>
  One iteration of the loop over \<open>addChannelDefinitionsByHash\<close>, for the key
  \<open>channelHash\<close>. \<open>len\<close> of a map is the number of its keys.
\<close>

definition addChannel ::
  "int \<Rightarrow> (ChannelHash \<times> int) list \<Rightarrow> (ChannelHash \<times> ChannelDefinitionWithID) list
     \<Rightarrow> ChannelHash \<Rightarrow> (ChannelID \<rightharpoonup> ChannelDefinition) \<Rightarrow> (ChannelID \<rightharpoonup> ChannelDefinition)" where
  "addChannel f addVotes addDefinitions channelHash defs =
     (case map_of addDefinitions channelHash of
        None \<Rightarrow> defs
      | Some defWithID \<Rightarrow>
          if voteCountOf addVotes channelHash \<le> f then defs
          else if defs (ChannelID defWithID) \<noteq> None then defs
          else if card (dom defs) > MAX_OUTCOME_CHANNEL_DEFINITIONS_LENGTH then defs
          else defs(ChannelID defWithID \<mapsto> ChannelDefinition defWithID))"

text \<open>
  \<open>range\<close> over a Go map visits the keys in an order the language leaves open, and
  the loop over \<open>addChannelDefinitionsByHash\<close> depends on it. The order of one run
  is the argument \<open>addOrder\<close>: a list of the keys of that map, each once. The other
  loops over maps write, for each key, only to that key's own entry, and are
  modelled in the order of the association list.
\<close>

definition outcomeChannelDefinitions ::
  "LLOPlugin \<Rightarrow> LLOLifeCycleStage \<Rightarrow> Outcome \<Rightarrow> Accumulators \<Rightarrow> ChannelHash list
     \<Rightarrow> ChannelID list \<times> (ChannelID \<rightharpoonup> ChannelDefinition)" where
  "outcomeChannelDefinitions p stage previousOutcome a addOrder =
     (let removeVotes = (if stage = LifeCycleStageRetired then [] else removeChannelVotesByID a);
          addDefinitions = (if stage = LifeCycleStageRetired then []
                            else addChannelDefinitionsByHash a);
          st = fold (removeChannel (F p)) removeVotes
                 ([], entries (ChannelDefinitions previousOutcome))
      in (fst st,
          fold (addChannel (F p) (addChannelVotesByHash a) addDefinitions) addOrder (snd st)))"

text \<open>
  \<open>outcome.ChannelDefinitions = previousOutcome.ChannelDefinitions\<close> copies a
  reference: when the previous map is not nil, the removals and additions above
  are made in the map that \<open>previousOutcome\<close> holds, and the later call
  \<open>previousOutcome.IsReportable\<close> reads the edited map. When it is nil, the
  outcome gets a fresh map and \<open>previousOutcome\<close> keeps nil.
\<close>

definition previousOutcomeAfterEdits ::
  "Outcome \<Rightarrow> (ChannelID \<rightharpoonup> ChannelDefinition) \<Rightarrow> Outcome" where
  "previousOutcomeAfterEdits previousOutcome defs =
     previousOutcome\<lparr>ChannelDefinitions :=
       (case ChannelDefinitions previousOutcome of None \<Rightarrow> None | Some m \<Rightarrow> Some defs)\<rparr>"

text \<open>The loop over \<open>previousOutcome.ValidAfterSeconds\<close>, entry by entry.\<close>

definition inheritValidAfterSeconds ::
  "externals \<Rightarrow> Outcome \<Rightarrow> 32 word \<Rightarrow> (ChannelID \<rightharpoonup> 32 word)" where
  "inheritValidAfterSeconds ext previousOutcome previousObservationsTimestampSeconds =
     (\<lambda>channelID.
        case entries (ValidAfterSeconds previousOutcome) channelID of
          None \<Rightarrow> None
        | Some previousValidAfterSeconds \<Rightarrow>
            if IsReportable ext previousOutcome channelID \<noteq> None
            then Some previousObservationsTimestampSeconds
            else Some previousValidAfterSeconds)"

text \<open>The loop over \<open>outcome.ChannelDefinitions\<close> that gives new channels an entry.\<close>

definition addNewChannels ::
  "(ChannelID \<rightharpoonup> ChannelDefinition) \<Rightarrow> 32 word \<Rightarrow> (ChannelID \<rightharpoonup> 32 word)
     \<Rightarrow> (ChannelID \<rightharpoonup> 32 word)" where
  "addNewChannels defs observationsTimestampSeconds vas =
     (\<lambda>channelID.
        if defs channelID \<noteq> None \<and> vas channelID = None
        then Some observationsTimestampSeconds
        else vas channelID)"

definition deleteRemoved ::
  "ChannelID list \<Rightarrow> (ChannelID \<rightharpoonup> 32 word) \<Rightarrow> (ChannelID \<rightharpoonup> 32 word)" where
  "deleteRemoved removedChannelIDs vas = fold (\<lambda>channelID m. m(channelID := None)) removedChannelIDs vas"

text \<open>
  The block \<open>outcome.ValidAfterSeconds\<close>. The argument \<open>outcome\<close> is the outcome
  built so far: stage, timestamp, channel definitions and the map that the
  promotion may have set.
\<close>

definition outcomeValidAfterSeconds ::
  "externals \<Rightarrow> Outcome \<Rightarrow> Outcome \<Rightarrow> ChannelID list \<Rightarrow> error + (ChannelID \<rightharpoonup> 32 word)" where
  "outcomeValidAfterSeconds ext previousOutcome outcome removedChannelIDs =
     (case (case ValidAfterSeconds outcome of
              Some m \<Rightarrow> Inr m
            | None \<Rightarrow>
                (case ObservationsTimestampSeconds previousOutcome of
                   Inl err \<Rightarrow> Inl ErrPreviousObservationsTimestamp
                 | Inr previousObservationsTimestampSeconds \<Rightarrow>
                     Inr (inheritValidAfterSeconds ext
                            (previousOutcomeAfterEdits previousOutcome
                               (entries (ChannelDefinitions outcome)))
                            previousObservationsTimestampSeconds))) of
        Inl err \<Rightarrow> Inl err
      | Inr vas \<Rightarrow>
          (case ObservationsTimestampSeconds outcome of
             Inl err \<Rightarrow> Inl ErrObservationsTimestamp
           | Inr observationsTimestampSeconds \<Rightarrow>
               Inr (deleteRemoved removedChannelIDs
                      (addNewChannels (entries (ChannelDefinitions outcome))
                         observationsTimestampSeconds vas))))"

text \<open>
  \<open>sort.Slice\<close> with \<open>observations[i].Cmp(observations[j]) < 0\<close>. \<open>Cmp\<close> first
  tests whether its two pointers are equal, so nil against nil compares equal,
  and it dereferences both otherwise, so nil against a value panics. A sort
  compares every element with some other one along a chain that links the whole
  slice: a slice that holds both a nil and a value panics, and no other does.
  On values that are not nil the order of \<open>int option\<close> is the order of the
  integers; a slice of nils alone is left as it is.
\<close>

definition sortObservations :: "int option list \<Rightarrow> error + int option list" where
  "sortObservations observations =
     (if list_ex (\<lambda>v. v = None) observations \<and> list_ex (\<lambda>v. v \<noteq> None) observations
      then Inl PanicNilPointerDereference
      else Inr (sort observations))"

fun outcomeStreamMedians ::
  "int \<Rightarrow> (StreamID \<times> int option list) list \<Rightarrow> (StreamID \<rightharpoonup> int option)
     \<Rightarrow> error + (StreamID \<rightharpoonup> int option)" where
  "outcomeStreamMedians f [] medians = Inr medians"
| "outcomeStreamMedians f (entry # rest) medians =
     (case sortObservations (snd entry) of
        Inl e \<Rightarrow> Inl e
      | Inr observations \<Rightarrow>
          if int (length observations) \<le> f then outcomeStreamMedians f rest medians
          else if length observations div 2 < length observations
          then outcomeStreamMedians f rest
                 (medians(fst entry \<mapsto> observations ! (length observations div 2)))
          else Inl PanicIndexOutOfRange)"

section \<open>Outcome\<close>

text \<open>Everything after the check that some observation was counted.\<close>

definition aggregate ::
  "externals \<Rightarrow> LLOPlugin \<Rightarrow> Outcome \<Rightarrow> Accumulators \<Rightarrow> ChannelHash list \<Rightarrow> error + Outcome" where
  "aggregate ext p previousOutcome a addOrder =
     (let stage = outcomeLifeCycleStage p previousOutcome a;
          sorted = sort_key sint (timestampsNanoseconds a);
          edits = outcomeChannelDefinitions p stage previousOutcome a addOrder;
          outcome = \<lparr>LifeCycleStage = stage,
                     ObservationsTimestampNanoseconds = sorted ! (length sorted div 2),
                     ChannelDefinitions = Some (snd edits),
                     ValidAfterSeconds = promotedValidAfterSeconds previousOutcome a,
                     StreamMedians = None\<rparr>
      in case outcomeValidAfterSeconds ext previousOutcome outcome (fst edits) of
           Inl e \<Rightarrow> Inl e
         | Inr vas \<Rightarrow>
             (case outcomeStreamMedians (F p) (streamObservations a) Map.empty of
                Inl e \<Rightarrow> Inl e
              | Inr medians \<Rightarrow>
                  Inr (outcome\<lparr>ValidAfterSeconds := Some vas, StreamMedians := Some medians\<rparr>)))"

text \<open>
  \<open>Outcome\<close> returns the outcome that it then hands to \<open>json.Marshal\<close>; the
  arguments are the sequence number and the bytes of the previous outcome (the
  fields of \<open>outctx\<close> that are read), the observations, and \<open>addOrder\<close>.
\<close>

definition Outcome ::
  "externals \<Rightarrow> LLOPlugin \<Rightarrow> 64 word \<Rightarrow> bytes \<Rightarrow> bytes list \<Rightarrow> ChannelHash list
     \<Rightarrow> error + Outcome" where
  "Outcome ext p seqNr previousOutcomeBytes aos addOrder =
     (if int (length aos) < 2 * F p + 1 then Inl ErrInvariantViolation
      else if seqNr \<le> 1
      then Inr \<lparr>LifeCycleStage =
                  (if PredecessorConfigDigest p = None then LifeCycleStageProduction
                   else LifeCycleStageStaging),
                ObservationsTimestampNanoseconds = 0,
                ChannelDefinitions = None,
                ValidAfterSeconds = None,
                StreamMedians = None\<rparr>
      else case jsonUnmarshalOutcome ext previousOutcomeBytes of
        None \<Rightarrow> Inl ErrUnmarshalPreviousOutcome
      | Some previousOutcome \<Rightarrow>
          (case decodeObservations ext p aos emptyAccumulators of
             Inl e \<Rightarrow> Inl e
           | Inr a \<Rightarrow>
               if length (timestampsNanoseconds a) = 0 then Inl ErrNoValidObservations
               else aggregate ext p previousOutcome a addOrder))"

section \<open>Observation and subtractChannelDefinitions\<close>

text \<open>
  \<open>subtractChannelDefinitions\<close> collects the entries of \<open>minuend\<close> whose key is not
  in \<open>subtrahend\<close>, sorts them by channel id and keeps the first \<open>limit\<close>. The
  result is the map \<open>difference\<close>, as an association list in that order.
\<close>

definition subtractChannelDefinitions ::
  "(ChannelID \<rightharpoonup> ChannelDefinition) \<Rightarrow> (ChannelID \<rightharpoonup> ChannelDefinition) \<Rightarrow> nat
     \<Rightarrow> (ChannelID \<times> ChannelDefinition) list" where
  "subtractChannelDefinitions minuend subtrahend limit =
     (let differenceList = sorted_list_of_set (dom minuend - dom subtrahend)
      in map (\<lambda>channelID. (channelID, the (minuend channelID))) (take limit differenceList))"

text \<open>\<open>removeChannelIDs[channelID] = struct{}{}\<close> on a set kept as a distinct list.\<close>

definition insertID :: "ChannelID \<Rightarrow> ChannelID list \<Rightarrow> ChannelID list" where
  "insertID channelID ids = (if channelID \<in> set ids then ids else ids @ [channelID])"

text \<open>
  The loop over \<open>previousOutcome.ValidAfterSeconds\<close> in \<open>Observation\<close>. It stops at
  the limit, so its result depends on the order in which \<open>range\<close> visits the
  keys: the first argument is that order.
\<close>

fun voteRemovals ::
  "ChannelID list \<Rightarrow> (ChannelID \<rightharpoonup> ChannelDefinition) \<Rightarrow> ChannelID list \<Rightarrow> ChannelID list" where
  "voteRemovals [] expectedChannelDefs removeChannelIDs = removeChannelIDs"
| "voteRemovals (channelID # rest) expectedChannelDefs removeChannelIDs =
     (if length removeChannelIDs \<ge> MAX_OBSERVATION_REMOVE_CHANNEL_IDS_LENGTH
      then removeChannelIDs
      else if expectedChannelDefs channelID = None
      then voteRemovals rest expectedChannelDefs (insertID channelID removeChannelIDs)
      else voteRemovals rest expectedChannelDefs removeChannelIDs)"

definition removeChannelIDsVote ::
  "Outcome \<Rightarrow> (ChannelID \<rightharpoonup> ChannelDefinition) \<Rightarrow> ChannelID list \<Rightarrow> ChannelID list" where
  "removeChannelIDsVote previousOutcome expectedChannelDefs vasOrder =
     voteRemovals vasOrder expectedChannelDefs
       (map fst (subtractChannelDefinitions (entries (ChannelDefinitions previousOutcome))
                   expectedChannelDefs MAX_OBSERVATION_REMOVE_CHANNEL_IDS_LENGTH))"

text \<open>
  \<open>Observation\<close> returns the observation that it then hands to \<open>json.Marshal\<close>;
  \<open>None\<close> is the empty byte slice of the first round. \<open>nowNanoseconds\<close> is
  \<open>time.Now().UnixNano()\<close>, \<open>vasOrder\<close> the keys of
  \<open>previousOutcome.ValidAfterSeconds\<close> in the order of this run.
\<close>

definition Observation ::
  "externals \<Rightarrow> LLOPlugin \<Rightarrow> 64 word \<Rightarrow> bytes \<Rightarrow> 64 word \<Rightarrow> ChannelID list
     \<Rightarrow> error + Observation option" where
  "Observation ext p seqNr previousOutcomeBytes nowNanoseconds vasOrder =
     (if seqNr < 1 then Inl ErrInvalidSeqNr
      else if seqNr = 1 then Inr None
      else case jsonUnmarshalOutcome ext previousOutcomeBytes of
        None \<Rightarrow> Inl ErrUnmarshalPreviousOutcome
      | Some previousOutcome \<Rightarrow>
          (case (case PredecessorConfigDigest p of
                   None \<Rightarrow> Inr []
                 | Some pcd \<Rightarrow>
                     if LifeCycleStage previousOutcome = LifeCycleStageStaging
                     then (case AttestedRetirementReport p pcd of
                             None \<Rightarrow> Inl ErrAttestedRetirementReportCache
                           | Some report \<Rightarrow> Inr report)
                     else Inr []) of
             Inl e \<Rightarrow> Inl e
           | Inr attestedRetirementReport \<Rightarrow>
               (case ShouldRetireCache p of
                  None \<Rightarrow> Inl ErrShouldRetireCache
                | Some shouldRetire \<Rightarrow>
                    (let expectedChannelDefs = ChannelDefinitionCache p;
                         streams = {streamID. \<exists>channelDefinition
                                       \<in> ran (entries (ChannelDefinitions previousOutcome)).
                                     streamID \<in> set (StreamIDs channelDefinition)}
                     in case DataSource p streams of
                          None \<Rightarrow> Inl ErrDataSourceObserve
                        | Some streamValues \<Rightarrow>
                            Inr (Some
                              \<lparr>AttestedPredecessorRetirement = attestedRetirementReport,
                               ShouldRetire = shouldRetire,
                               UnixTimestampNanoseconds = nowNanoseconds,
                               RemoveChannelIDs =
                                 removeChannelIDsVote previousOutcome expectedChannelDefs vasOrder,
                               AddChannelDefinitions =
                                 subtractChannelDefinitions expectedChannelDefs
                                   (entries (ChannelDefinitions previousOutcome))
                                   MAX_OBSERVATION_ADD_CHANNEL_DEFINITIONS_LENGTH,
                               StreamValues = streamValues\<rparr>)))))"

section \<open>Notions used in the statements\<close>

text \<open>
  The observations that the loop of \<open>Outcome\<close> counts, in order: those that decode
  and are not left by \<open>continue\<close>. The last argument is the retirement report
  accepted so far. Where the loop panics, nothing more is counted.
\<close>

fun countedObservations ::
  "externals \<Rightarrow> LLOPlugin \<Rightarrow> bytes list \<Rightarrow> RetirementReport option \<Rightarrow> Observation list" where
  "countedObservations ext p [] accepted = []"
| "countedObservations ext p (ao # aos) accepted =
     (case jsonUnmarshalObservation ext ao of
        None \<Rightarrow> countedObservations ext p aos accepted
      | Some observation \<Rightarrow>
          if AttestedPredecessorRetirement observation \<noteq> [] \<and> accepted = None
          then (case PredecessorConfigDigest p of
                  None \<Rightarrow> []
                | Some pcd \<Rightarrow>
                    (case CheckAttestedRetirementReport p pcd
                            (AttestedPredecessorRetirement observation) of
                       None \<Rightarrow> countedObservations ext p aos accepted
                     | Some retirementReport \<Rightarrow>
                         observation # countedObservations ext p aos (Some retirementReport)))
          else observation # countedObservations ext p aos accepted)"

text \<open>The values that an observation carries, marked valid, for a stream.\<close>

definition validValues :: "StreamID \<Rightarrow> Observation \<Rightarrow> int option list" where
  "validValues streamID observation =
     map (\<lambda>entry. Val (snd entry))
       (filter (\<lambda>entry. fst entry = streamID \<and> Valid (snd entry)) (StreamValues observation))"

text \<open>
  For a stream: the valid values of the counted observations of a round, in the
  order of the observations, and the number of counted observations that carry
  a valid value.
\<close>

definition validStreamValues ::
  "externals \<Rightarrow> LLOPlugin \<Rightarrow> bytes list \<Rightarrow> StreamID \<Rightarrow> int option list" where
  "validStreamValues ext p aos streamID =
     concat (map (validValues streamID) (countedObservations ext p aos None))"

definition carriesValidValue :: "StreamID \<Rightarrow> Observation \<Rightarrow> bool" where
  "carriesValidValue streamID observation \<longleftrightarrow>
     list_ex (\<lambda>entry. fst entry = streamID \<and> Valid (snd entry)) (StreamValues observation)"

definition validObservationCount ::
  "externals \<Rightarrow> LLOPlugin \<Rightarrow> bytes list \<Rightarrow> StreamID \<Rightarrow> nat" where
  "validObservationCount ext p aos streamID =
     length (filter (carriesValidValue streamID) (countedObservations ext p aos None))"

text \<open>
  A channel is removed in a round when it has more than \<open>f\<close> votes in
  \<open>removeChannelVotesByID\<close> and the instance does not end the round retired.
\<close>

definition removedThisRound :: "LLOPlugin \<Rightarrow> Outcome \<Rightarrow> Accumulators \<Rightarrow> ChannelID \<Rightarrow> bool" where
  "removedThisRound p previousOutcome a channelID \<longleftrightarrow>
     outcomeLifeCycleStage p previousOutcome a \<noteq> LifeCycleStageRetired
     \<and> (case map_of (removeChannelVotesByID a) channelID of
            None \<Rightarrow> False
          | Some voteCount \<Rightarrow> voteCount > F p)"

text \<open>
  Reading \<open>streamObservations\<close>: the values of a stream (none on a missing key).
  The lists of that map are never empty, and no value is nil when every valid
  stream value of the counted observations carries a value.
\<close>

definition valuesOf :: "(StreamID \<times> int option list) list \<Rightarrow> StreamID \<Rightarrow> int option list" where
  "valuesOf so streamID = (case map_of so streamID of None \<Rightarrow> [] | Some vs \<Rightarrow> vs)"

definition wellFormedStreams :: "(StreamID \<times> int option list) list \<Rightarrow> bool" where
  "wellFormedStreams so \<longleftrightarrow> distinct (map fst so) \<and> (\<forall>entry \<in> set so. snd entry \<noteq> [])"

definition noNilValues :: "(StreamID \<times> int option list) list \<Rightarrow> bool" where
  "noNilValues so \<longleftrightarrow> (\<forall>entry \<in> set so. snd entry \<noteq> [] \<and> None \<notin> set (snd entry))"

definition isPanic :: "error \<Rightarrow> bool" where
  "isPanic e \<longleftrightarrow> e = PanicNilPointerDereference \<or> e = PanicIndexOutOfRange"

text \<open>
  The candidates for a removal vote: the channels of the previous outcome, by
  definition or by \<open>ValidAfterSeconds\<close> entry, that are not expected.
\<close>

definition removalCandidates ::
  "Outcome \<Rightarrow> (ChannelID \<rightharpoonup> ChannelDefinition) \<Rightarrow> ChannelID set" where
  "removalCandidates previousOutcome expectedChannelDefs =
     (dom (entries (ChannelDefinitions previousOutcome))
        \<union> dom (entries (ValidAfterSeconds previousOutcome))) - dom expectedChannelDefs"

section \<open>Sample inputs\<close>

text \<open>
  A stand-in for \<open>json.Unmarshal\<close> on a finite table: the one-byte input \<open>[i]\<close>
  decodes to the \<open>i\<close>-th entry, everything else (the empty input too) fails.
  In the sample externals the identity stands for SHA-256 (no two inputs
  collide), and the only chain selector that resolves is 5009297550715157269,
  to the chain id 1.
\<close>

definition tableDecoder :: "'a list \<Rightarrow> bytes \<Rightarrow> 'a option" where
  "tableDecoder table bs =
     (case bs of
        [b] \<Rightarrow> (if unat b < length table then Some (table ! unat b) else None)
      | _ \<Rightarrow> None)"

definition sampleExternals :: "Outcome \<Rightarrow> Observation list \<Rightarrow> externals" where
  "sampleExternals previousOutcome observations =
     \<lparr>jsonUnmarshalOutcome = tableDecoder [previousOutcome],
      jsonUnmarshalObservation = tableDecoder observations,
      sha256 = (\<lambda>bs. bs),
      ChainIdFromSelector =
        (\<lambda>selector. if selector = 5009297550715157269 then Some 1 else None)\<rparr>"

definition samplePlugin :: LLOPlugin where
  "samplePlugin =
     \<lparr>PredecessorConfigDigest = None,
      CheckAttestedRetirementReport = (\<lambda>digest report. None),
      F = 0,
      AttestedRetirementReport = (\<lambda>digest. Some []),
      ShouldRetireCache = Some False,
      ChannelDefinitionCache = Map.empty,
      DataSource = (\<lambda>streams. Some [])\<rparr>"

definition sampleReport :: RetirementReport where
  "sampleReport = \<lparr>RetirementReport.ValidAfterSeconds = Some [1 \<mapsto> 0, 5 \<mapsto> 1000]\<rparr>"

text \<open>An instance with a predecessor; only the report bytes \<open>[1]\<close> verify.\<close>

definition successorPlugin :: LLOPlugin where
  "successorPlugin =
     samplePlugin\<lparr>PredecessorConfigDigest := Some [1],
       CheckAttestedRetirementReport :=
         (\<lambda>digest report. if report = [1] then Some sampleReport else None)\<rparr>"

definition sampleChannel :: ChannelDefinition where
  "sampleChannel =
     \<lparr>ReportFormat = ''json'', ChainSelector = 5009297550715157269, StreamIDs = [7]\<rparr>"

definition otherChannel :: ChannelDefinition where
  "otherChannel =
     \<lparr>ReportFormat = ''evm'', ChainSelector = 5009297550715157269, StreamIDs = [7]\<rparr>"

text \<open>
  A production outcome at 10 s: channel 1 is reportable (valid after 5 s),
  channel 2 is not yet (valid after 15 s).
\<close>

definition productionOutcome :: Outcome where
  "productionOutcome =
     \<lparr>LifeCycleStage = LifeCycleStageProduction,
      ObservationsTimestampNanoseconds = 10000000000,
      ChannelDefinitions = Some [1 \<mapsto> sampleChannel, 2 \<mapsto> sampleChannel],
      ValidAfterSeconds = Some [1 \<mapsto> 5, 2 \<mapsto> 15],
      StreamMedians = Some [7 \<mapsto> Some 3]\<rparr>"

definition stagingOutcome :: Outcome where
  "stagingOutcome = productionOutcome\<lparr>LifeCycleStage := LifeCycleStageStaging\<rparr>"

definition emptyOutcome :: Outcome where
  "emptyOutcome =
     \<lparr>LifeCycleStage = LifeCycleStageProduction,
      ObservationsTimestampNanoseconds = 10000000000,
      ChannelDefinitions = Some Map.empty,
      ValidAfterSeconds = Some Map.empty,
      StreamMedians = Some Map.empty\<rparr>"

text \<open>An observation at time \<open>t\<close> that reports the value \<open>v\<close> for stream 7.\<close>

definition streamObservation :: "64 word \<Rightarrow> int \<Rightarrow> Observation" where
  "streamObservation t v =
     \<lparr>AttestedPredecessorRetirement = [], ShouldRetire = False,
      UnixTimestampNanoseconds = t, RemoveChannelIDs = [],
      AddChannelDefinitions = [],
      StreamValues = [(7, \<lparr>Val = Some v, Valid = True\<rparr>)]\<rparr>"

text \<open>One observation at 20 s on top of \<open>productionOutcome\<close>, with \<open>f = 0\<close>.\<close>

definition tickExternals :: externals where
  "tickExternals = sampleExternals productionOutcome [streamObservation 20000000000 4]"

text \<open>A staging instance whose only observation carries the report that verifies.\<close>

definition promotionExternals :: externals where
  "promotionExternals =
     sampleExternals stagingOutcome
       [(streamObservation 20000000000 4)\<lparr>AttestedPredecessorRetirement := [1]\<rparr>]"

text \<open>The same round, with a vote to remove channel 5.\<close>

definition promotionRemovalExternals :: externals where
  "promotionRemovalExternals =
     sampleExternals stagingOutcome
       [(streamObservation 20000000000 4)
          \<lparr>AttestedPredecessorRetirement := [1], RemoveChannelIDs := [5]\<rparr>]"

text \<open>
  Two observations: the first, at 30 s and voting to retire, carries a report
  that does not verify; the second, at 20 s, carries none.
\<close>

definition badReportObservation :: Observation where
  "badReportObservation =
     (streamObservation 30000000000 9)
        \<lparr>AttestedPredecessorRetirement := [2], ShouldRetire := True,
         RemoveChannelIDs := [1], AddChannelDefinitions := [(3, otherChannel)]\<rparr>"

definition badReportExternals :: externals where
  "badReportExternals =
     sampleExternals productionOutcome [badReportObservation, streamObservation 20000000000 4]"

text \<open>Two observations that vote to add channel 1 with different definitions.\<close>

definition addObservation :: "ChannelDefinition \<Rightarrow> Observation" where
  "addObservation channelDefinition =
     (streamObservation 20000000000 4)\<lparr>AddChannelDefinitions := [(1, channelDefinition)]\<rparr>"

definition conflictExternals :: externals where
  "conflictExternals =
     sampleExternals emptyOutcome [addObservation sampleChannel, addObservation otherChannel]"

definition sampleHash :: ChannelHash where
  "sampleHash =
     MakeChannelHash conflictExternals \<lparr>ChannelDefinition = sampleChannel, ChannelID = 1\<rparr>"

definition otherHash :: ChannelHash where
  "otherHash =
     MakeChannelHash conflictExternals \<lparr>ChannelDefinition = otherChannel, ChannelID = 1\<rparr>"

text \<open>Three observations of stream 7, for a round with \<open>f = 1\<close>.\<close>

definition medianExternals :: externals where
  "medianExternals =
     sampleExternals productionOutcome
       [streamObservation 20000000000 30, streamObservation 30000000000 10,
        streamObservation 40000000000 20]"

text \<open>
  A previous outcome with 500 channel definitions, the ids 0 to 499, and one
  observation that votes to add channel 500.
\<close>

definition fullDefinitions :: "ChannelID \<rightharpoonup> ChannelDefinition" where
  "fullDefinitions = (\<lambda>channelID. if channelID < 500 then Some sampleChannel else None)"

definition fullOutcome :: Outcome where
  "fullOutcome = emptyOutcome\<lparr>ChannelDefinitions := Some fullDefinitions\<rparr>"

definition fullExternals :: externals where
  "fullExternals =
     sampleExternals fullOutcome
       [(streamObservation 20000000000 4)\<lparr>AddChannelDefinitions := [(500, sampleChannel)]\<rparr>]"

definition newHash :: ChannelHash where
  "newHash = MakeChannelHash fullExternals \<lparr>ChannelDefinition = sampleChannel, ChannelID = 500\<rparr>"

text \<open>
  A previous outcome whose channels 10 to 14 have a definition and whose
  channel 1 has only a \<open>ValidAfterSeconds\<close> entry; \<open>samplePlugin\<close> expects no
  channel.
\<close>

definition removalOutcome :: Outcome where
  "removalOutcome =
     emptyOutcome\<lparr>ChannelDefinitions :=
         Some [10 \<mapsto> sampleChannel, 11 \<mapsto> sampleChannel, 12 \<mapsto> sampleChannel,
               13 \<mapsto> sampleChannel, 14 \<mapsto> sampleChannel],
       ValidAfterSeconds := Some [1 \<mapsto> 0]\<rparr>"

definition removalExternals :: externals where
  "removalExternals = sampleExternals removalOutcome []"

section \<open>Properties\<close>

lemmas outcome_defs =
  Outcome_def aggregate_def decodeObservation_def accumulate_def emptyAccumulators_def
  outcomeLifeCycleStage_def promoted_def promotedValidAfterSeconds_def
  outcomeChannelDefinitions_def removeChannel_def addChannel_def addChannelVote_def
  outcomeValidAfterSeconds_def inheritValidAfterSeconds_def previousOutcomeAfterEdits_def
  addNewChannels_def deleteRemoved_def appendStreamValue_def sortObservations_def
  increment_def voteCountOf_def entries_def
  IsReportable_def ObservationsTimestampSeconds_def medianIsNil_def
  LifeCycleStageStaging_def LifeCycleStageProduction_def LifeCycleStageRetired_def
  MAX_OUTCOME_CHANNEL_DEFINITIONS_LENGTH_def Let_def

lemmas sample_defs =
  tableDecoder_def sampleExternals_def samplePlugin_def successorPlugin_def sampleReport_def
  sampleChannel_def otherChannel_def productionOutcome_def stagingOutcome_def
  emptyOutcome_def streamObservation_def tickExternals_def promotionExternals_def
  promotionRemovalExternals_def badReportObservation_def badReportExternals_def
  addObservation_def conflictExternals_def medianExternals_def
  removalOutcome_def removalExternals_def

subsection \<open>IsReportable\<close>

lemma fits_uint32:
  "uint (word_of_int r :: 32 word) = r \<longleftrightarrow> 0 \<le> r \<and> r < 4294967296"
  by (auto simp: uint_word_of_int take_bit_eq_mod intro: mod_pos_pos_trivial)

text \<open>
  C9: \<open>IsReportable\<close> returns nil for a channel exactly when the stage is not
  retired, the observations timestamp in seconds fits \<open>uint32\<close>, the channel has a
  definition whose chain selector resolves and all of whose streams have a
  median that is not nil, and the channel has a \<open>ValidAfterSeconds\<close> entry strictly
  below the observations timestamp in seconds.
\<close>

theorem IsReportable_iff:
  "IsReportable ext out channelID = None \<longleftrightarrow>
     LifeCycleStage out \<noteq> LifeCycleStageRetired
     \<and> 0 \<le> sint (ObservationsTimestampNanoseconds out) div 1000000000
     \<and> sint (ObservationsTimestampNanoseconds out) div 1000000000 < 4294967296
     \<and> (\<exists>channelDefinition.
           entries (ChannelDefinitions out) channelID = Some channelDefinition
           \<and> ChainIdFromSelector ext (ChainSelector channelDefinition) \<noteq> None
           \<and> (\<forall>streamID \<in> set (StreamIDs channelDefinition).
                 \<exists>median. entries (StreamMedians out) streamID = Some (Some median)))
     \<and> (\<exists>validAfterSeconds.
           entries (ValidAfterSeconds out) channelID = Some validAfterSeconds
           \<and> validAfterSeconds
               < word_of_int (sint (ObservationsTimestampNanoseconds out) div 1000000000))"
  unfolding IsReportable_def ObservationsTimestampSeconds_def Let_def fits_uint32
    medianIsNil_def list_ex_iff
  by (auto split: option.splits sum.splits if_splits simp: not_le)

theorem IsReportable_iff_witness:
  "IsReportable (sampleExternals productionOutcome []) productionOutcome 1 = None"
  using IsReportable_iff [of "sampleExternals productionOutcome []" productionOutcome 1]
  by (simp add: sample_defs entries_def LifeCycleStageRetired_def LifeCycleStageProduction_def)

subsection \<open>The accumulators\<close>

lemma fold_addChannelVote_fields:
  "validPredecessorRetirementReport (fold (addChannelVote ext) xs a) = validPredecessorRetirementReport a"
  "shouldRetireVotes (fold (addChannelVote ext) xs a) = shouldRetireVotes a"
  "timestampsNanoseconds (fold (addChannelVote ext) xs a) = timestampsNanoseconds a"
  "removeChannelVotesByID (fold (addChannelVote ext) xs a) = removeChannelVotesByID a"
  "streamObservations (fold (addChannelVote ext) xs a) = streamObservations a"
  by (induction xs arbitrary: a; simp add: addChannelVote_def Let_def)+

lemma accumulate_fields:
  "validPredecessorRetirementReport (accumulate ext observation a) = validPredecessorRetirementReport a"
  "timestampsNanoseconds (accumulate ext observation a)
     = timestampsNanoseconds a @ [UnixTimestampNanoseconds observation]"
  "removeChannelVotesByID (accumulate ext observation a)
     = fold increment (RemoveChannelIDs observation) (removeChannelVotesByID a)"
  "streamObservations (accumulate ext observation a)
     = fold appendStreamValue (StreamValues observation) (streamObservations a)"
  by (simp_all add: accumulate_def fold_addChannelVote_fields)

lemma distinct_fold_increment:
  "distinct (map fst m) \<Longrightarrow> distinct (map fst (fold increment ks m))"
  by (induction ks arbitrary: m) (simp_all add: increment_def distinct_map_default)

lemma decodeObservation_cases:
  assumes "decodeObservation ext p ao a = Inr a'"
  shows "a' = a \<or> (\<exists>observation report. jsonUnmarshalObservation ext ao = Some observation
            \<and> (a' = accumulate ext observation a
                \<or> a' = accumulate ext observation (a\<lparr>validPredecessorRetirementReport := Some report\<rparr>)))"
  using assms unfolding decodeObservation_def
  by (auto split: option.splits if_splits)

lemma decodeObservation_distinct_removeVotes:
  assumes "decodeObservation ext p ao a = Inr a'" "distinct (map fst (removeChannelVotesByID a))"
  shows "distinct (map fst (removeChannelVotesByID a'))"
  using decodeObservation_cases [OF assms(1)] assms(2)
  by (auto simp: accumulate_fields distinct_fold_increment)

lemma decodeObservations_distinct_removeVotes:
  "decodeObservations ext p aos a = Inr a' \<Longrightarrow> distinct (map fst (removeChannelVotesByID a))
     \<Longrightarrow> distinct (map fst (removeChannelVotesByID a'))"
proof (induction aos arbitrary: a)
  case Nil
  then show ?case by simp
next
  case (Cons ao aos)
  then show ?case
    by (auto split: sum.splits dest: decodeObservation_distinct_removeVotes)
qed

subsection \<open>Removed channels\<close>

lemma fst_fold_removeChannel:
  "fst (fold (removeChannel f) votes st)
     = fst st @ map fst (filter (\<lambda>entry. \<not> snd entry \<le> f) votes)"
  by (induction votes arbitrary: st) (simp_all add: removeChannel_def)

lemma deleteRemoved_apply:
  "deleteRemoved removedChannelIDs vas channelID
     = (if channelID \<in> set removedChannelIDs then None else vas channelID)"
  unfolding deleteRemoved_def
  by (induction removedChannelIDs arbitrary: vas) simp_all

lemma removed_iff:
  assumes "distinct (map fst (removeChannelVotesByID a))"
  shows "channelID \<in> set (fst (outcomeChannelDefinitions p (outcomeLifeCycleStage p previousOutcome a)
                                   previousOutcome a addOrder))
         \<longleftrightarrow> removedThisRound p previousOutcome a channelID"
proof -
  have "(\<exists>n. (channelID, n) \<in> set (removeChannelVotesByID a) \<and> \<not> n \<le> F p)
        \<longleftrightarrow> (\<exists>n. map_of (removeChannelVotesByID a) channelID = Some n \<and> F p < n)"
    using assms by (simp add: not_le)
  also have "\<dots> \<longleftrightarrow> (case map_of (removeChannelVotesByID a) channelID of
                         None \<Rightarrow> False | Some n \<Rightarrow> F p < n)"
    by (simp split: option.splits)
  finally show ?thesis
    unfolding outcomeChannelDefinitions_def removedThisRound_def Let_def
    by (auto simp: fst_fold_removeChannel image_iff)
qed

subsection \<open>Unfolding Outcome\<close>

lemma Outcome_later:
  assumes "1 < seqNr" "jsonUnmarshalOutcome ext previousOutcomeBytes = Some previousOutcome"
    "decodeObservations ext p aos emptyAccumulators = Inr a"
    "Outcome ext p seqNr previousOutcomeBytes aos addOrder = Inr outcome"
  shows "aggregate ext p previousOutcome a addOrder = Inr outcome"
  using assms unfolding Outcome_def
  by (auto split: if_splits simp: not_le)

lemma aggregate_validAfterSeconds:
  assumes "aggregate ext p previousOutcome a addOrder = Inr outcome"
  shows "\<exists>vas sorted.
     outcomeValidAfterSeconds ext previousOutcome
       \<lparr>LifeCycleStage = outcomeLifeCycleStage p previousOutcome a,
        ObservationsTimestampNanoseconds = sorted,
        ChannelDefinitions = Some (snd (outcomeChannelDefinitions p (outcomeLifeCycleStage p previousOutcome a) previousOutcome a addOrder)),
        ValidAfterSeconds = promotedValidAfterSeconds previousOutcome a,
        StreamMedians = None\<rparr>
       (fst (outcomeChannelDefinitions p (outcomeLifeCycleStage p previousOutcome a) previousOutcome a addOrder)) = Inr vas
     \<and> ValidAfterSeconds outcome = Some vas
     \<and> ObservationsTimestampNanoseconds outcome = sorted
     \<and> LifeCycleStage outcome = outcomeLifeCycleStage p previousOutcome a
     \<and> ChannelDefinitions outcome = Some (snd (outcomeChannelDefinitions p (outcomeLifeCycleStage p previousOutcome a) previousOutcome a addOrder))"
  using assms unfolding aggregate_def Let_def
  by (auto split: sum.splits)


subsection \<open>ValidAfterSeconds of a round without promotion\<close>

text \<open>
  C1: in a round whose \<open>ValidAfterSeconds\<close> is not taken from a retirement report,
  a channel that was reportable under the previous outcome would get the previous
  observations timestamp in seconds, and any other channel would keep its previous
  value. The two branches are the other way round in the code. On
  \<open>productionOutcome\<close> (timestamp 10 s) channel 1 is reportable and keeps its
  value 5, and channel 2 is not reportable and is moved from 15 to 10.
\<close>

theorem validAfterSeconds_branches_swapped:
  "IsReportable tickExternals productionOutcome 1 = None
   \<and> IsReportable tickExternals productionOutcome 2 = Some ErrNotValidYet
   \<and> ObservationsTimestampSeconds productionOutcome = Inr 10
   \<and> \<not> isl (Outcome tickExternals samplePlugin 2 [0] [[0]] [])
   \<and> entries (ValidAfterSeconds (projr (Outcome tickExternals samplePlugin 2 [0] [[0]] []))) 1
       = Some 5
   \<and> entries (ValidAfterSeconds (projr (Outcome tickExternals samplePlugin 2 [0] [[0]] []))) 2
       = Some 10"
  by (simp add: outcome_defs sample_defs word_le_nat_alt)

text \<open>
  C2: a channel that is reportable under the previous outcome and under the new
  one would have a new \<open>ValidAfterSeconds\<close> value of at least the previous
  observations timestamp in seconds. In the round on \<open>productionOutcome\<close>
  (timestamp 10 s), without promotion, channel 1 is reportable before and after
  and its value stays 5: the swapped branches keep the old value of a channel
  that was reported.
\<close>

theorem validAfterSeconds_not_advanced:
  "IsReportable tickExternals productionOutcome 1 = None
   \<and> ObservationsTimestampSeconds productionOutcome = Inr 10
   \<and> \<not> isl (Outcome tickExternals samplePlugin 2 [0] [[0]] [])
   \<and> LifeCycleStage (projr (Outcome tickExternals samplePlugin 2 [0] [[0]] []))
       = LifeCycleStage productionOutcome
   \<and> IsReportable tickExternals
         (projr (Outcome tickExternals samplePlugin 2 [0] [[0]] [])) 1 = None
   \<and> entries (ValidAfterSeconds
         (projr (Outcome tickExternals samplePlugin 2 [0] [[0]] []))) 1 = Some 5
   \<and> \<not> (5 :: 32 word) \<ge> 10"
  by (simp add: outcome_defs sample_defs word_le_nat_alt)

subsection \<open>Promotion\<close>

text \<open>
  C3, as amended: when a staging instance is promoted with the accepted
  retirement report, every channel of the report's \<open>ValidAfterSeconds\<close> that is
  not removed in this round has exactly the report's value in the new outcome;
  a channel of the report that is removed in this round has no entry.
\<close>

theorem promotion_takes_over_report:
  assumes "1 < seqNr"
    and "jsonUnmarshalOutcome ext previousOutcomeBytes = Some previousOutcome"
    and "decodeObservations ext p aos emptyAccumulators = Inr a"
    and "Outcome ext p seqNr previousOutcomeBytes aos addOrder = Inr outcome"
    and "LifeCycleStage previousOutcome = LifeCycleStageStaging"
    and "validPredecessorRetirementReport a = Some report"
    and "entries (RetirementReport.ValidAfterSeconds report) channelID = Some v"
  shows "entries (ValidAfterSeconds outcome) channelID
           = (if removedThisRound p previousOutcome a channelID then None else Some v)"
proof -
  obtain m where m: "RetirementReport.ValidAfterSeconds report = Some m" "m channelID = Some v"
    using assms(7) by (cases "RetirementReport.ValidAfterSeconds report") (auto simp: entries_def)
  have prom: "promotedValidAfterSeconds previousOutcome a = Some m"
    using assms(5,6) m(1) by (simp add: promotedValidAfterSeconds_def promoted_def)
  have dist: "distinct (map fst (removeChannelVotesByID a))"
    using decodeObservations_distinct_removeVotes [OF assms(3)]
    by (simp add: emptyAccumulators_def)
  from Outcome_later [OF assms(1-4)] aggregate_validAfterSeconds
  obtain vas sorted where
    vas: "outcomeValidAfterSeconds ext previousOutcome
       \<lparr>LifeCycleStage = outcomeLifeCycleStage p previousOutcome a,
        ObservationsTimestampNanoseconds = sorted,
        ChannelDefinitions = Some (snd (outcomeChannelDefinitions p (outcomeLifeCycleStage p previousOutcome a) previousOutcome a addOrder)),
        ValidAfterSeconds = promotedValidAfterSeconds previousOutcome a,
        StreamMedians = None\<rparr>
       (fst (outcomeChannelDefinitions p (outcomeLifeCycleStage p previousOutcome a) previousOutcome a addOrder)) = Inr vas"
    and out: "ValidAfterSeconds outcome = Some vas"
    by blast
  from vas have "vas channelID
      = (if channelID \<in> set (fst (outcomeChannelDefinitions p (outcomeLifeCycleStage p previousOutcome a) previousOutcome a addOrder))
         then None else Some v)"
    unfolding outcomeValidAfterSeconds_def prom
    by (auto split: sum.splits simp: deleteRemoved_apply addNewChannels_def m(2))
  then show ?thesis
    using out by (simp add: entries_def removed_iff [OF dist])
qed

theorem promotion_takes_over_report_witness:
  "entries (ValidAfterSeconds (projr (Outcome promotionExternals successorPlugin 2 [0] [[0]] []))) 5
     = Some 1000
   \<and> entries (ValidAfterSeconds (projr (Outcome promotionExternals successorPlugin 2 [0] [[0]] []))) 1
     = Some 0"
proof -
  let ?a = "projr (decodeObservations promotionExternals successorPlugin [[0]] emptyAccumulators)"
  let ?out = "projr (Outcome promotionExternals successorPlugin 2 [0] [[0]] [])"
  have h1: "(1 :: 64 word) < 2" by simp
  have h2: "jsonUnmarshalOutcome promotionExternals [0] = Some stagingOutcome"
    by (simp add: sample_defs)
  have h3: "decodeObservations promotionExternals successorPlugin [[0]] emptyAccumulators = Inr ?a"
    by (rule sum.collapse(2) [symmetric]) (simp add: outcome_defs sample_defs)
  have h4: "Outcome promotionExternals successorPlugin 2 [0] [[0]] [] = Inr ?out"
    by (rule sum.collapse(2) [symmetric]) (simp add: outcome_defs sample_defs word_le_nat_alt)
  have h5: "LifeCycleStage stagingOutcome = LifeCycleStageStaging"
    by (simp add: sample_defs)
  have h6: "validPredecessorRetirementReport ?a = Some sampleReport"
    by (simp add: outcome_defs sample_defs)
  have h7: "entries (RetirementReport.ValidAfterSeconds sampleReport) 5 = Some 1000"
    and h8: "entries (RetirementReport.ValidAfterSeconds sampleReport) 1 = Some 0"
    by (simp_all add: sample_defs entries_def)
  have r: "\<not> removedThisRound successorPlugin stagingOutcome ?a 5"
    "\<not> removedThisRound successorPlugin stagingOutcome ?a 1"
    by (simp_all add: removedThisRound_def outcome_defs sample_defs)
  show ?thesis
    using promotion_takes_over_report [OF h1 h2 h3 h4 h5 h6 h7]
      promotion_takes_over_report [OF h1 h2 h3 h4 h5 h6 h8] r
    by simp
qed

text \<open>
  The claim as stated fails when the promotion round also removes a channel of
  the report: channel 5 has the value 1000 in the report and no entry in the
  outcome.
\<close>

theorem promotion_verbatim_counterexample:
  "\<not> isl (Outcome promotionRemovalExternals successorPlugin 2 [0] [[0]] [])
   \<and> LifeCycleStage stagingOutcome = LifeCycleStageStaging
   \<and> LifeCycleStage (projr (Outcome promotionRemovalExternals successorPlugin 2 [0] [[0]] []))
       = LifeCycleStageProduction
   \<and> validPredecessorRetirementReport
         (projr (decodeObservations promotionRemovalExternals successorPlugin [[0]]
                   emptyAccumulators)) = Some sampleReport
   \<and> entries (RetirementReport.ValidAfterSeconds sampleReport) 5 = Some 1000
   \<and> entries (ValidAfterSeconds
         (projr (Outcome promotionRemovalExternals successorPlugin 2 [0] [[0]] []))) 5 = None"
  by (simp add: outcome_defs sample_defs word_le_nat_alt)

subsection \<open>The order of the channel additions\<close>

text \<open>
  C4: \<open>Outcome\<close> would return the same outcome for the same previous outcome,
  observations and \<open>f\<close>. The additions are applied in the order in which \<open>range\<close>
  visits \<open>addChannelDefinitionsByHash\<close>, which is not sorted: with two
  definitions voted for channel 1, each of the two orders of the two keys gives
  a different definition of channel 1.
\<close>

theorem additions_depend_on_map_order:
  "map fst (addChannelDefinitionsByHash
       (projr (decodeObservations conflictExternals samplePlugin [[0], [1]] emptyAccumulators)))
     = [sampleHash, otherHash]
   \<and> sampleHash \<noteq> otherHash
   \<and> \<not> isl (Outcome conflictExternals samplePlugin 2 [0] [[0], [1]] [sampleHash, otherHash])
   \<and> \<not> isl (Outcome conflictExternals samplePlugin 2 [0] [[0], [1]] [otherHash, sampleHash])
   \<and> entries (ChannelDefinitions
         (projr (Outcome conflictExternals samplePlugin 2 [0] [[0], [1]] [sampleHash, otherHash]))) 1
       = Some sampleChannel
   \<and> entries (ChannelDefinitions
         (projr (Outcome conflictExternals samplePlugin 2 [0] [[0], [1]] [otherHash, sampleHash]))) 1
       = Some otherChannel
   \<and> sampleChannel \<noteq> otherChannel"
  by (simp add: outcome_defs sample_defs word_le_nat_alt sampleHash_def otherHash_def
        MakeChannelHash_def be32_def be64_def)

subsection \<open>Observations with a report that does not verify\<close>

text \<open>
  C5, as amended: when an observation carries a retirement report that is not
  empty, no report was accepted before, and the report fails
  \<open>CheckAttestedRetirementReport\<close>, the loop leaves the whole observation: the
  accumulators stay as they were, so none of its fields is counted, and the
  round goes on as if the observation were not in the list.
\<close>

theorem failed_report_skips_observation:
  assumes "jsonUnmarshalObservation ext ao = Some observation"
    and "AttestedPredecessorRetirement observation \<noteq> []"
    and "validPredecessorRetirementReport a = None"
    and "PredecessorConfigDigest p = Some pcd"
    and "CheckAttestedRetirementReport p pcd (AttestedPredecessorRetirement observation) = None"
  shows "decodeObservation ext p ao a = Inr a
         \<and> decodeObservations ext p (ao # aos) a = decodeObservations ext p aos a"
  using assms by (simp add: decodeObservation_def)

theorem failed_report_skips_observation_witness:
  "decodeObservation badReportExternals successorPlugin [0] emptyAccumulators = Inr emptyAccumulators
   \<and> decodeObservations badReportExternals successorPlugin [[0], [1]] emptyAccumulators
       = decodeObservations badReportExternals successorPlugin [[1]] emptyAccumulators"
proof -
  have h1: "jsonUnmarshalObservation badReportExternals [0] = Some badReportObservation"
    by (simp add: sample_defs)
  have h2: "AttestedPredecessorRetirement badReportObservation \<noteq> []"
    by (simp add: sample_defs)
  have h3: "validPredecessorRetirementReport emptyAccumulators = None"
    by (simp add: emptyAccumulators_def)
  have h4: "PredecessorConfigDigest successorPlugin = Some [1]"
    by (simp add: sample_defs)
  have h5: "CheckAttestedRetirementReport successorPlugin [1]
              (AttestedPredecessorRetirement badReportObservation) = None"
    by (simp add: sample_defs)
  show ?thesis
    using failed_report_skips_observation [OF h1 h2 h3 h4 h5, of "[[1]]"] by simp
qed

text \<open>
  The claim as stated fails: the first observation of \<open>badReportExternals\<close>
  (30 s, a vote to retire, a removal, an addition, a stream value) carries a
  report that does not verify, and nothing of it reaches the accumulators or the
  outcome.
\<close>

theorem failed_report_fields_counted_counterexample:
  "jsonUnmarshalObservation badReportExternals [0] = Some badReportObservation
   \<and> \<not> isl (Outcome badReportExternals successorPlugin 2 [0] [[0], [1]] [])
   \<and> timestampsNanoseconds
         (projr (decodeObservations badReportExternals successorPlugin [[0], [1]] emptyAccumulators))
       = [20000000000]
   \<and> shouldRetireVotes
         (projr (decodeObservations badReportExternals successorPlugin [[0], [1]] emptyAccumulators))
       = 0
   \<and> removeChannelVotesByID
         (projr (decodeObservations badReportExternals successorPlugin [[0], [1]] emptyAccumulators))
       = []
   \<and> addChannelVotesByHash
         (projr (decodeObservations badReportExternals successorPlugin [[0], [1]] emptyAccumulators))
       = []
   \<and> streamObservations
         (projr (decodeObservations badReportExternals successorPlugin [[0], [1]] emptyAccumulators))
       = [(7, [Some 4])]
   \<and> ObservationsTimestampNanoseconds
         (projr (Outcome badReportExternals successorPlugin 2 [0] [[0], [1]] [])) = 20000000000
   \<and> LifeCycleStage (projr (Outcome badReportExternals successorPlugin 2 [0] [[0], [1]] []))
       = LifeCycleStageProduction"
  by (simp add: outcome_defs sample_defs word_le_nat_alt)

subsection \<open>Stream observations\<close>

lemma valuesOf_appendStreamValue:
  "valuesOf (appendStreamValue entry so) streamID
     = valuesOf so streamID
       @ (if fst entry = streamID \<and> Valid (snd entry) then [Val (snd entry)] else [])"
  by (simp add: valuesOf_def appendStreamValue_def map_of_map_default split: option.splits)

lemma valuesOf_fold_appendStreamValue:
  "valuesOf (fold appendStreamValue svs so) streamID
     = valuesOf so streamID
       @ map (\<lambda>entry. Val (snd entry))
           (filter (\<lambda>entry. fst entry = streamID \<and> Valid (snd entry)) svs)"
  by (induction svs arbitrary: so) (simp_all add: valuesOf_appendStreamValue)

lemma set_map_default:
  "set (AList.map_default k v f xs)
     \<subseteq> set xs \<union> {(k, v)} \<union> {(k, f w) | w. (k, w) \<in> set xs}"
  by (induction xs) auto

lemma wellFormedStreams_appendStreamValue:
  "wellFormedStreams so \<Longrightarrow> wellFormedStreams (appendStreamValue entry so)"
  unfolding wellFormedStreams_def appendStreamValue_def
  using set_map_default [of "fst entry" "[Val (snd entry)]" "\<lambda>vs. vs @ [Val (snd entry)]" so]
  by (auto simp: distinct_map_default)

lemma wellFormedStreams_fold:
  "wellFormedStreams so \<Longrightarrow> wellFormedStreams (fold appendStreamValue svs so)"
  by (induction svs arbitrary: so) (simp_all add: wellFormedStreams_appendStreamValue)

lemma wellFormedStreams_map_of:
  assumes "wellFormedStreams so"
  shows "map_of so streamID = (if valuesOf so streamID = [] then None else Some (valuesOf so streamID))"
proof (cases "map_of so streamID")
  case None
  then show ?thesis by (simp add: valuesOf_def)
next
  case (Some vs)
  then have "(streamID, vs) \<in> set so" by (rule map_of_SomeD)
  with assms have "vs \<noteq> []" by (auto simp: wellFormedStreams_def)
  with Some show ?thesis by (simp add: valuesOf_def)
qed

lemma decodeObservations_streams:
  "decodeObservations ext p aos a = Inr a' \<Longrightarrow>
     valuesOf (streamObservations a') streamID
       = valuesOf (streamObservations a) streamID
         @ concat (map (validValues streamID)
                     (countedObservations ext p aos (validPredecessorRetirementReport a)))"
proof (induction aos arbitrary: a)
  case Nil
  then show ?case by simp
next
  case (Cons ao aos)
  then obtain a1 where step: "decodeObservation ext p ao a = Inr a1"
    and rest: "decodeObservations ext p aos a1 = Inr a'"
    by (auto split: sum.splits)
  from step have
    "valuesOf (streamObservations a1) streamID @ concat (map (validValues streamID)
         (countedObservations ext p aos (validPredecessorRetirementReport a1)))
     = valuesOf (streamObservations a) streamID @ concat (map (validValues streamID)
         (countedObservations ext p (ao # aos) (validPredecessorRetirementReport a)))"
    unfolding decodeObservation_def
    by (auto split: option.splits if_splits
          simp: accumulate_fields valuesOf_fold_appendStreamValue validValues_def)
  with Cons.IH [OF rest] show ?case by simp
qed

lemma decodeObservations_wellFormedStreams:
  "decodeObservations ext p aos a = Inr a' \<Longrightarrow> wellFormedStreams (streamObservations a)
     \<Longrightarrow> wellFormedStreams (streamObservations a')"
proof (induction aos arbitrary: a)
  case Nil
  then show ?case by simp
next
  case (Cons ao aos)
  then obtain a1 where step: "decodeObservation ext p ao a = Inr a1"
    and rest: "decodeObservations ext p aos a1 = Inr a'"
    by (auto split: sum.splits)
  from decodeObservation_cases [OF step] Cons.prems(2)
  have "wellFormedStreams (streamObservations a1)"
    by (auto simp: accumulate_fields wellFormedStreams_fold)
  with Cons.IH [OF rest] show ?case .
qed

lemma sortObservations_Inr:
  "sortObservations vs = Inr ordered \<Longrightarrow> ordered = sort vs"
  by (auto simp: sortObservations_def split: if_splits)

lemma outcomeStreamMedians_apply:
  "outcomeStreamMedians f so medians0 = Inr medians \<Longrightarrow> distinct (map fst so) \<Longrightarrow>
     medians streamID
       = (case map_of so streamID of
            None \<Rightarrow> medians0 streamID
          | Some vs \<Rightarrow>
              if int (length vs) \<le> f then medians0 streamID
              else Some (sort vs ! (length vs div 2)))"
proof (induction so arbitrary: medians0)
  case Nil
  then show ?case by simp
next
  case (Cons entry so)
  from Cons.prems(1) obtain ordered where s: "sortObservations (snd entry) = Inr ordered"
    by (auto split: sum.splits)
  then have ordered: "ordered = sort (snd entry)" by (rule sortObservations_Inr)
  from Cons.prems(2) have notin: "fst entry = streamID \<Longrightarrow> map_of so streamID = None"
    by (auto simp: map_of_eq_None_iff)
  from Cons.prems(2) have d: "distinct (map fst so)" by simp
  show ?case
  proof (cases "int (length ordered) \<le> f")
    case True
    with Cons.prems(1) s have "outcomeStreamMedians f so medians0 = Inr medians" by simp
    from Cons.IH [OF this d] True notin show ?thesis
      by (cases entry) (auto simp: ordered split: option.splits)
  next
    case False
    with Cons.prems(1) s have
      "outcomeStreamMedians f so (medians0(fst entry \<mapsto> ordered ! (length ordered div 2))) = Inr medians"
      by (auto split: if_splits)
    from Cons.IH [OF this d] False notin show ?thesis
      by (cases entry) (auto simp: ordered split: option.splits)
  qed
qed

lemma length_validValues:
  assumes "distinct (map fst (StreamValues observation))"
  shows "length (validValues streamID observation)
           = (if carriesValidValue streamID observation then 1 else 0)"
proof -
  have "distinct (map fst svs) \<Longrightarrow>
          length (filter (\<lambda>entry. fst entry = streamID \<and> Valid (snd entry)) svs)
            = (if list_ex (\<lambda>entry. fst entry = streamID \<and> Valid (snd entry)) svs then 1 else 0)"
    for svs :: "(StreamID \<times> ObsResult) list"
    by (induction svs) (auto simp: list_ex_iff image_iff)
  from this [OF assms] show ?thesis
    by (simp add: validValues_def carriesValidValue_def)
qed

lemma countedObservations_decoded:
  "observation \<in> set (countedObservations ext p aos accepted)
     \<Longrightarrow> \<exists>ao \<in> set aos. jsonUnmarshalObservation ext ao = Some observation"
  by (induction aos arbitrary: accepted) (auto split: option.splits if_splits)

lemma length_concat_validValues:
  assumes "\<forall>observation \<in> set obs. distinct (map fst (StreamValues observation))"
  shows "length (concat (map (validValues streamID) obs))
           = length (filter (carriesValidValue streamID) obs)"
  using assms by (induction obs) (simp_all add: length_validValues)

lemma aggregate_streamMedians:
  assumes "aggregate ext p previousOutcome a addOrder = Inr outcome"
  shows "\<exists>medians. outcomeStreamMedians (F p) (streamObservations a) Map.empty = Inr medians
           \<and> StreamMedians outcome = Some medians"
  using assms unfolding aggregate_def Let_def
  by (auto split: sum.splits)

lemma Outcome_later_decoded:
  assumes "1 < seqNr" "Outcome ext p seqNr previousOutcomeBytes aos addOrder = Inr outcome"
  shows "\<exists>previousOutcome a. jsonUnmarshalOutcome ext previousOutcomeBytes = Some previousOutcome
           \<and> decodeObservations ext p aos emptyAccumulators = Inr a
           \<and> aggregate ext p previousOutcome a addOrder = Inr outcome"
  using assms unfolding Outcome_def
  by (auto split: if_splits option.splits sum.splits simp: not_le)

text \<open>
  C8: in an outcome of \<open>Outcome\<close> for a sequence number above 1, a stream has an
  entry in \<open>StreamMedians\<close> exactly when more than \<open>f\<close> of the counted
  observations carry a valid value for it, and the entry is then the element at
  index \<open>len / 2\<close> of these values in ascending order. Here \<open>f\<close> is not
  negative, and the \<open>StreamValues\<close> of an observation, a Go map, has each key
  once. The order on \<open>int option\<close> is the order of the integers, with nil
  below them; nil occurs only among the values of a stream that are all nil,
  since a comparison of nil with a value panics.
\<close>

theorem stream_medians_threshold:
  assumes "1 < seqNr"
    and "Outcome ext p seqNr previousOutcomeBytes aos addOrder = Inr outcome"
    and "0 \<le> F p"
    and "\<forall>ao \<in> set aos. \<forall>observation. jsonUnmarshalObservation ext ao = Some observation
           \<longrightarrow> distinct (map fst (StreamValues observation))"
  shows "(entries (StreamMedians outcome) streamID \<noteq> None
            \<longleftrightarrow> F p < int (validObservationCount ext p aos streamID))
         \<and> (F p < int (validObservationCount ext p aos streamID)
              \<longrightarrow> entries (StreamMedians outcome) streamID
                    = Some (sort (validStreamValues ext p aos streamID)
                              ! (length (validStreamValues ext p aos streamID) div 2)))"
proof -
  from Outcome_later_decoded [OF assms(1,2)] obtain previousOutcome a where
    dec: "decodeObservations ext p aos emptyAccumulators = Inr a"
    and agg: "aggregate ext p previousOutcome a addOrder = Inr outcome"
    by blast
  from aggregate_streamMedians [OF agg] obtain medians where
    med: "outcomeStreamMedians (F p) (streamObservations a) Map.empty = Inr medians"
    and out: "StreamMedians outcome = Some medians"
    by blast
  have wf: "wellFormedStreams (streamObservations a)"
    using decodeObservations_wellFormedStreams [OF dec]
    by (simp add: emptyAccumulators_def wellFormedStreams_def)
  have vals: "valuesOf (streamObservations a) streamID = validStreamValues ext p aos streamID"
    using decodeObservations_streams [OF dec, of streamID]
    by (simp add: emptyAccumulators_def valuesOf_def validStreamValues_def)
  have "\<forall>observation \<in> set (countedObservations ext p aos None).
          distinct (map fst (StreamValues observation))"
    using assms(4) countedObservations_decoded by blast
  then have len: "length (validStreamValues ext p aos streamID)
                    = validObservationCount ext p aos streamID"
    unfolding validStreamValues_def validObservationCount_def
    by (rule length_concat_validValues)
  have "medians streamID
          = (if int (length (validStreamValues ext p aos streamID)) \<le> F p then None
             else Some (sort (validStreamValues ext p aos streamID)
                          ! (length (validStreamValues ext p aos streamID) div 2)))"
    using outcomeStreamMedians_apply [OF med, of streamID] wf assms(3)
    by (simp add: wellFormedStreams_map_of [OF wf] vals wellFormedStreams_def)
  then show ?thesis
    using out len by (simp add: entries_def not_le)
qed

theorem stream_medians_threshold_witness:
  "entries (StreamMedians
       (projr (Outcome medianExternals (samplePlugin\<lparr>F := 1\<rparr>) 2 [0] [[0], [1], [2]] []))) 7
     = Some (Some 20)"
proof -
  let ?p = "samplePlugin\<lparr>F := 1\<rparr>"
  let ?out = "projr (Outcome medianExternals ?p 2 [0] [[0], [1], [2]] [])"
  have h1: "(1 :: 64 word) < 2" by simp
  have h2: "Outcome medianExternals ?p 2 [0] [[0], [1], [2]] [] = Inr ?out"
    by (rule sum.collapse(2) [symmetric]) (simp add: outcome_defs sample_defs word_le_nat_alt)
  have h3: "0 \<le> F ?p" by (simp add: sample_defs)
  have h4: "\<forall>ao \<in> set [[0], [1], [2]]. \<forall>observation.
              jsonUnmarshalObservation medianExternals ao = Some observation
                \<longrightarrow> distinct (map fst (StreamValues observation))"
    by (auto simp: sample_defs)
  have c: "validObservationCount medianExternals ?p [[0], [1], [2]] 7 = 3"
    by (simp add: validObservationCount_def carriesValidValue_def sample_defs)
  have v: "validStreamValues medianExternals ?p [[0], [1], [2]] 7 = [Some 30, Some 10, Some 20]"
    by (simp add: validStreamValues_def validValues_def sample_defs)
  show ?thesis
    using stream_medians_threshold [OF h1 h2 h3 h4, of 7]
    by (simp add: c v)
qed

subsection \<open>Panics\<close>

lemma validated_decodable:
  assumes "jsonUnmarshalObservation ext [] = None"
    and "jsonUnmarshalObservation ext ao = Some observation"
    and "ValidateObservation ext p seqNr ao = None"
  shows "validateDecoded p observation = None"
proof -
  from assms(1,2) have "ao \<noteq> []" by auto
  with assms(2,3) show ?thesis
    by (auto simp: ValidateObservation_def split: if_splits)
qed

lemma validateDecoded_NoneD:
  assumes "validateDecoded p observation = None"
  shows "PredecessorConfigDigest p = None \<longrightarrow> AttestedPredecessorRetirement observation = []"
    and "\<forall>entry \<in> set (StreamValues observation). Valid (snd entry) \<longrightarrow> Val (snd entry) \<noteq> None"
  using assms unfolding validateDecoded_def
  by (auto split: if_splits simp: list_ex_iff)

lemma noNilValues_appendStreamValue:
  assumes "noNilValues so" "Valid (snd entry) \<longrightarrow> Val (snd entry) \<noteq> None"
  shows "noNilValues (appendStreamValue entry so)"
  using assms set_map_default [of "fst entry" "[Val (snd entry)]" "\<lambda>vs. vs @ [Val (snd entry)]" so]
  unfolding noNilValues_def appendStreamValue_def
  by (auto 4 3)

lemma noNilValues_fold:
  "noNilValues so \<Longrightarrow> \<forall>entry \<in> set svs. Valid (snd entry) \<longrightarrow> Val (snd entry) \<noteq> None
     \<Longrightarrow> noNilValues (fold appendStreamValue svs so)"
  by (induction svs arbitrary: so) (simp_all add: noNilValues_appendStreamValue)

lemma decodeObservation_total:
  assumes "\<forall>observation. jsonUnmarshalObservation ext ao = Some observation
             \<longrightarrow> validateDecoded p observation = None"
    and "noNilValues (streamObservations a)"
  shows "\<exists>a'. decodeObservation ext p ao a = Inr a' \<and> noNilValues (streamObservations a')"
proof (cases "jsonUnmarshalObservation ext ao")
  case None
  with assms(2) show ?thesis by (simp add: decodeObservation_def)
next
  case (Some observation)
  with assms(1) have v: "validateDecoded p observation = None" by simp
  have keep: "noNilValues (streamObservations (accumulate ext observation b))"
    if "streamObservations b = streamObservations a" for b
    using that assms(2) validateDecoded_NoneD(2) [OF v]
    by (simp add: accumulate_fields noNilValues_fold)
  show ?thesis
    using Some validateDecoded_NoneD(1) [OF v] assms(2) keep
    by (auto simp: decodeObservation_def split: option.splits)
qed

lemma decodeObservations_total:
  "\<forall>ao \<in> set aos. \<forall>observation. jsonUnmarshalObservation ext ao = Some observation
       \<longrightarrow> validateDecoded p observation = None
   \<Longrightarrow> noNilValues (streamObservations a)
   \<Longrightarrow> \<exists>a'. decodeObservations ext p aos a = Inr a' \<and> noNilValues (streamObservations a')"
proof (induction aos arbitrary: a)
  case Nil
  then show ?case by simp
next
  case (Cons ao aos)
  from decodeObservation_total [of ext ao p a] Cons.prems
  obtain a1 where a1: "decodeObservation ext p ao a = Inr a1" "noNilValues (streamObservations a1)"
    by auto
  from Cons.IH [OF _ a1(2)] Cons.prems(1) a1(1) show ?case by simp
qed

lemma outcomeStreamMedians_total:
  "noNilValues so \<Longrightarrow> \<exists>medians. outcomeStreamMedians f so medians0 = Inr medians"
proof (induction so arbitrary: medians0)
  case Nil
  then show ?case by simp
next
  case (Cons entry so)
  then have e: "snd entry \<noteq> []" "None \<notin> set (snd entry)" and rest: "noNilValues so"
    by (simp_all add: noNilValues_def)
  from e have s: "sortObservations (snd entry) = Inr (sort (snd entry))"
    by (simp add: sortObservations_def list_ex_iff)
  from e(1) have "length (sort (snd entry)) div 2 < length (sort (snd entry))"
    by (cases "snd entry") simp_all
  with s Cons.IH [OF rest] show ?case by simp
qed

lemma outcomeValidAfterSeconds_errors:
  "outcomeValidAfterSeconds ext previousOutcome outcome removedChannelIDs = Inl e
     \<Longrightarrow> e = ErrPreviousObservationsTimestamp \<or> e = ErrObservationsTimestamp"
  unfolding outcomeValidAfterSeconds_def
  by (auto split: option.splits sum.splits)

text \<open>
  C10: when every observation that decodes passes \<open>ValidateObservation\<close>,
  \<open>Outcome\<close> does not panic: it returns an outcome or one of its errors. The
  decoder rejects the empty input, as \<open>json.Unmarshal\<close> does.
\<close>

theorem Outcome_never_panics:
  assumes "jsonUnmarshalObservation ext [] = None"
    and "\<forall>ao \<in> set aos. jsonUnmarshalObservation ext ao \<noteq> None
           \<longrightarrow> ValidateObservation ext p seqNr ao = None"
  shows "\<not> (\<exists>e. isPanic e \<and> Outcome ext p seqNr previousOutcomeBytes aos addOrder = Inl e)"
proof -
  have "\<forall>ao \<in> set aos. \<forall>observation. jsonUnmarshalObservation ext ao = Some observation
          \<longrightarrow> validateDecoded p observation = None"
    using assms validated_decodable by (metis option.distinct(1))
  from decodeObservations_total [OF this, of emptyAccumulators]
  obtain a where a: "decodeObservations ext p aos emptyAccumulators = Inr a"
    "noNilValues (streamObservations a)"
    by (auto simp: emptyAccumulators_def noNilValues_def)
  from outcomeStreamMedians_total [OF a(2)] obtain medians where
    m: "outcomeStreamMedians (F p) (streamObservations a) Map.empty = Inr medians"
    by blast
  have "aggregate ext p previousOutcome a addOrder = Inl e \<Longrightarrow> \<not> isPanic e"
    for previousOutcome e
    unfolding aggregate_def Let_def
    by (auto simp: m isPanic_def split: sum.splits dest: outcomeValidAfterSeconds_errors)
  then show ?thesis
    unfolding Outcome_def
    by (auto simp: a(1) isPanic_def split: if_splits option.splits)
qed

theorem Outcome_never_panics_witness:
  "\<not> (\<exists>e. isPanic e
          \<and> Outcome badReportExternals successorPlugin 2 [0] [[0], [1]] [] = Inl e)"
proof -
  have h1: "jsonUnmarshalObservation badReportExternals [] = None"
    by (simp add: sample_defs)
  have h2: "\<forall>ao \<in> set [[0], [1]]. jsonUnmarshalObservation badReportExternals ao \<noteq> None
              \<longrightarrow> ValidateObservation badReportExternals successorPlugin 2 ao = None"
    by (simp add: ValidateObservation_def validateDecoded_def sample_defs word_le_nat_alt
          MAX_OBSERVATION_ADD_CHANNEL_DEFINITIONS_LENGTH_def
          MAX_OBSERVATION_REMOVE_CHANNEL_IDS_LENGTH_def
          MAX_OBSERVATION_STREAM_VALUES_LENGTH_def)
  show ?thesis
    using Outcome_never_panics [OF h1 h2] .
qed

subsection \<open>The limit on channel definitions\<close>

lemma card_fullDefinitions: "card (dom fullDefinitions) = 500"
proof -
  have "dom fullDefinitions = {channelID. channelID < 500}"
    by (auto simp: fullDefinitions_def split: if_splits)
  also have "\<dots> = (of_nat :: nat \<Rightarrow> 32 word) ` {..<500}"
  proof (intro set_eqI iffI)
    fix c :: "32 word"
    assume "c \<in> {channelID. channelID < 500}"
    then have "unat c < 500" by (simp add: word_less_nat_alt)
    then have "unat c \<in> {..<500}" by simp
    moreover have "c = of_nat (unat c)" by simp
    ultimately show "c \<in> of_nat ` {..<500}" by (rule rev_image_eqI)
  next
    fix c :: "32 word"
    assume "c \<in> of_nat ` {..<500}"
    then obtain n :: nat where n: "n < 500" "c = of_nat n" by auto
    then have "unat c = n" by (simp add: unat_of_nat)
    with n(1) show "c \<in> {channelID. channelID < 500}" by (simp add: word_less_nat_alt)
  qed
  also have "card \<dots> = card {..<500::nat}"
  proof (rule card_image, rule inj_onI)
    fix x y :: nat
    assume "x \<in> {..<500}" "y \<in> {..<500}" "(of_nat x :: 32 word) = of_nat y"
    then have "unat (of_nat x :: 32 word) = unat (of_nat y :: 32 word)" "x < 500" "y < 500"
      by simp_all
    then show "x = y" by (simp add: unat_of_nat)
  qed
  finally show ?thesis by simp
qed

lemma fullDefinitions_500: "fullDefinitions 500 = None"
  by (simp add: fullDefinitions_def)

lemma card_fullDefinitions_upd:
  "card (dom (fullDefinitions(500 \<mapsto> channelDefinition))) = 501"
  by (simp add: card_fullDefinitions fullDefinitions_500 domIff)

text \<open>
  C6: the channel definitions of an outcome would never be more than 500. The
  check before an addition is \<open>len(outcome.ChannelDefinitions) > 500\<close>, so an
  outcome with 500 definitions still takes one more: from \<open>fullOutcome\<close> the
  round with one vote for channel 500 returns 501 definitions.
\<close>

theorem limit_exceeded:
  "card (dom (entries (ChannelDefinitions fullOutcome))) = 500
   \<and> \<not> isl (Outcome fullExternals samplePlugin 2 [0] [[0]] [newHash])
   \<and> card (dom (entries (ChannelDefinitions
         (projr (Outcome fullExternals samplePlugin 2 [0] [[0]] [newHash]))))) = 501"
  by (simp add: outcome_defs sample_defs fullOutcome_def fullExternals_def newHash_def
        MakeChannelHash_def be32_def be64_def word_le_nat_alt
        card_fullDefinitions fullDefinitions_500 del: dom_fun_upd)
    (simp add: card_fullDefinitions_upd del: dom_fun_upd)

subsection \<open>The removal votes of an observation\<close>

lemma subtractChannelDefinitions_keys:
  "map fst (subtractChannelDefinitions minuend subtrahend limit)
     = take limit (sorted_list_of_set (dom minuend - dom subtrahend))"
  by (simp add: subtractChannelDefinitions_def Let_def comp_def take_map [symmetric])

lemma set_insertID: "set (insertID channelID ids) = insert channelID (set ids)"
  by (auto simp: insertID_def)

lemma distinct_insertID: "distinct ids \<Longrightarrow> distinct (insertID channelID ids)"
  by (simp add: insertID_def)

lemma length_insertID: "length (insertID channelID ids) \<le> Suc (length ids)"
  by (simp add: insertID_def)

lemma voteRemovals_props:
  fixes ids :: "ChannelID list"
  assumes "distinct ids" "length ids \<le> MAX_OBSERVATION_REMOVE_CHANNEL_IDS_LENGTH"
  shows "distinct (voteRemovals order expected ids)
         \<and> set ids \<subseteq> set (voteRemovals order expected ids)
         \<and> set (voteRemovals order expected ids)
             \<subseteq> set ids \<union> {channelID \<in> set order. expected channelID = None}
         \<and> length (voteRemovals order expected ids)
             = min MAX_OBSERVATION_REMOVE_CHANNEL_IDS_LENGTH
                 (card (set ids \<union> {channelID \<in> set order. expected channelID = None}))"
  using assms
proof (induction order arbitrary: ids)
  case Nil
  then show ?case by (simp add: distinct_card)
next
  case (Cons channelID rest)
  show ?case
  proof (cases "length ids \<ge> MAX_OBSERVATION_REMOVE_CHANNEL_IDS_LENGTH")
    case True
    have "card (set ids) \<le> card (set ids \<union> {c \<in> set (channelID # rest). expected c = None})"
      by (rule card_mono) auto
    with True Cons.prems show ?thesis by (simp add: distinct_card)
  next
    case False
    show ?thesis
    proof (cases "expected channelID = None")
      case True
      have eq: "set (insertID channelID ids) \<union> {c \<in> set rest. expected c = None}
                  = set ids \<union> {c \<in> set (channelID # rest). expected c = None}"
        using True by (auto simp: set_insertID)
      have len: "length (insertID channelID ids) \<le> MAX_OBSERVATION_REMOVE_CHANNEL_IDS_LENGTH"
        using False length_insertID [of channelID ids] by simp
      from Cons.IH [OF distinct_insertID [OF Cons.prems(1)] len] False True eq
      show ?thesis by (auto simp: set_insertID)
    next
      case notNone: False
      have eq: "set ids \<union> {c \<in> set rest. expected c = None}
                  = set ids \<union> {c \<in> set (channelID # rest). expected c = None}"
        using notNone by auto
      from Cons.IH [OF Cons.prems] False notNone eq
      show ?thesis by auto
    qed
  qed
qed

lemma removeChannelIDsVote_props:
  assumes "set vasOrder = dom (entries (ValidAfterSeconds previousOutcome))"
  shows "distinct (removeChannelIDsVote previousOutcome expected vasOrder)"
    and "set (removeChannelIDsVote previousOutcome expected vasOrder)
           \<subseteq> removalCandidates previousOutcome expected"
    and "length (removeChannelIDsVote previousOutcome expected vasOrder)
           = min MAX_OBSERVATION_REMOVE_CHANNEL_IDS_LENGTH
               (card (removalCandidates previousOutcome expected))"
    and "set (take MAX_OBSERVATION_REMOVE_CHANNEL_IDS_LENGTH
                (sorted_list_of_set
                   (dom (entries (ChannelDefinitions previousOutcome)) - dom expected)))
           \<subseteq> set (removeChannelIDsVote previousOutcome expected vasOrder)"
proof -
  let ?N = MAX_OBSERVATION_REMOVE_CHANNEL_IDS_LENGTH
  let ?D = "dom (entries (ChannelDefinitions previousOutcome)) - dom expected"
  let ?ids = "take ?N (sorted_list_of_set ?D)"
  let ?V = "{channelID \<in> set vasOrder. expected channelID = None}"
  have ids: "distinct ?ids" "length ?ids \<le> ?N" "set ?ids \<subseteq> ?D"
    using set_take_subset [of ?N "sorted_list_of_set ?D"] by simp_all
  have V: "?V = dom (entries (ValidAfterSeconds previousOutcome)) - dom expected"
    using assms by auto
  have unfold: "removeChannelIDsVote previousOutcome expected vasOrder
                  = voteRemovals vasOrder expected ?ids"
    by (simp add: removeChannelIDsVote_def subtractChannelDefinitions_keys)
  note props = voteRemovals_props [OF ids(1,2), of vasOrder expected]
  show "distinct (removeChannelIDsVote previousOutcome expected vasOrder)"
    using props unfold by simp
  show "set (removeChannelIDsVote previousOutcome expected vasOrder)
          \<subseteq> removalCandidates previousOutcome expected"
    using props ids(3) unfolding unfold V removalCandidates_def by blast
  show "set ?ids \<subseteq> set (removeChannelIDsVote previousOutcome expected vasOrder)"
    using props unfold by simp
  have "min ?N (card (set ?ids \<union> ?V)) = min ?N (card (removalCandidates previousOutcome expected))"
  proof (cases "card ?D \<le> ?N")
    case True
    then have "set ?ids = ?D" by simp
    then have "set ?ids \<union> ?V = removalCandidates previousOutcome expected"
      unfolding V removalCandidates_def by blast
    then show ?thesis by simp
  next
    case False
    then have "length ?ids = ?N" by simp
    then have "card (set ?ids) = ?N" using ids(1) by (simp add: distinct_card)
    moreover have "card (set ?ids) \<le> card (set ?ids \<union> ?V)"
      by (rule card_mono) auto
    moreover have "card ?D \<le> card (removalCandidates previousOutcome expected)"
      by (rule card_mono) (auto simp: removalCandidates_def)
    ultimately show ?thesis using False by simp
  qed
  then show "length (removeChannelIDsVote previousOutcome expected vasOrder)
               = min ?N (card (removalCandidates previousOutcome expected))"
    using props unfold by simp
qed

lemma Observation_RemoveChannelIDs:
  assumes "Observation ext p seqNr previousOutcomeBytes nowNanoseconds vasOrder
             = Inr (Some observation)"
    and "jsonUnmarshalOutcome ext previousOutcomeBytes = Some previousOutcome"
  shows "RemoveChannelIDs observation
           = removeChannelIDsVote previousOutcome (ChannelDefinitionCache p) vasOrder"
  using assms unfolding Observation_def Let_def
  by (auto split: if_splits option.splits sum.splits)

text \<open>
  C7, as amended: the removal votes of an observation are distinct channel ids
  that the previous outcome has in its definitions or in \<open>ValidAfterSeconds\<close> and
  that are not expected; there are as many as there are such ids, but at most 5;
  and the channels with a definition come first: the first 5 ids, in ascending
  order, of the unexpected definitions are always among the votes.
\<close>

theorem remove_votes_of_observation:
  assumes "Observation ext p seqNr previousOutcomeBytes nowNanoseconds vasOrder
             = Inr (Some observation)"
    and "jsonUnmarshalOutcome ext previousOutcomeBytes = Some previousOutcome"
    and "set vasOrder = dom (entries (ValidAfterSeconds previousOutcome))"
  shows "distinct (RemoveChannelIDs observation)
         \<and> set (RemoveChannelIDs observation)
             \<subseteq> removalCandidates previousOutcome (ChannelDefinitionCache p)
         \<and> length (RemoveChannelIDs observation)
             = min 5 (card (removalCandidates previousOutcome (ChannelDefinitionCache p)))
         \<and> set (take 5 (sorted_list_of_set
                          (dom (entries (ChannelDefinitions previousOutcome))
                             - dom (ChannelDefinitionCache p))))
             \<subseteq> set (RemoveChannelIDs observation)"
  using removeChannelIDsVote_props [OF assms(3), of "ChannelDefinitionCache p"]
  unfolding Observation_RemoveChannelIDs [OF assms(1,2)]
    MAX_OBSERVATION_REMOVE_CHANNEL_IDS_LENGTH_def
  by simp

lemmas observation_defs =
  Observation_def removeChannelIDsVote_def subtractChannelDefinitions_def insertID_def
  MAX_OBSERVATION_REMOVE_CHANNEL_IDS_LENGTH_def MAX_OBSERVATION_ADD_CHANNEL_DEFINITIONS_LENGTH_def
  entries_def Let_def LifeCycleStageStaging_def LifeCycleStageProduction_def

theorem remove_votes_of_observation_witness:
  "distinct (RemoveChannelIDs
       (the (projr (Observation removalExternals samplePlugin 2 [0] 0 [1]))))
   \<and> set (RemoveChannelIDs
         (the (projr (Observation removalExternals samplePlugin 2 [0] 0 [1]))))
       \<subseteq> removalCandidates removalOutcome (ChannelDefinitionCache samplePlugin)
   \<and> length (RemoveChannelIDs
         (the (projr (Observation removalExternals samplePlugin 2 [0] 0 [1]))))
       = min 5 (card (removalCandidates removalOutcome (ChannelDefinitionCache samplePlugin)))
   \<and> set (take 5 (sorted_list_of_set
                    (dom (entries (ChannelDefinitions removalOutcome))
                       - dom (ChannelDefinitionCache samplePlugin))))
       \<subseteq> set (RemoveChannelIDs
         (the (projr (Observation removalExternals samplePlugin 2 [0] 0 [1]))))"
proof -
  let ?r = "Observation removalExternals samplePlugin 2 [0] 0 [1]"
  have "\<exists>observation. ?r = Inr (Some observation)"
    by (simp add: Observation_def Let_def sample_defs)
  then have h1: "?r = Inr (Some (the (projr ?r)))"
    by auto
  have h2: "jsonUnmarshalOutcome removalExternals [0] = Some removalOutcome"
    by (simp add: sample_defs)
  have h3: "set [1] = dom (entries (ValidAfterSeconds removalOutcome))"
    by (auto simp: sample_defs entries_def split: if_splits)
  show ?thesis
    using remove_votes_of_observation [OF h1 h2 h3] .
qed

text \<open>
  The claim as stated fails: the candidates are 1 and 10 to 14, the five
  smallest are 1, 10, 11, 12, 13, and the votes are 10 to 14, since the
  definitions alone reach the limit. \<open>ValidAfterSeconds\<close> has the single key 1,
  so there is one order to visit it in.
\<close>

theorem remove_votes_counterexample:
  "RemoveChannelIDs (the (projr (Observation removalExternals samplePlugin 2 [0] 0 [1])))
     = [10, 11, 12, 13, 14]
   \<and> dom (entries (ValidAfterSeconds removalOutcome)) = {1}
   \<and> removalCandidates removalOutcome (ChannelDefinitionCache samplePlugin)
       = {1, 10, 11, 12, 13, 14}
   \<and> take 5 (sorted_list_of_set
               (removalCandidates removalOutcome (ChannelDefinitionCache samplePlugin)))
       = [1, 10, 11, 12, 13]"
  by (auto simp add: observation_defs sample_defs removalCandidates_def word_less_nat_alt)

end
